theory Spec2Isabelle
  imports Complex_Main
begin

section \<open>Python exceptions\<close>

text \<open>
  Every \<^verbatim>\<open>raise\<close> of \<^verbatim>\<open>task.py\<close> and every failure of a numpy, torch or Python
  primitive it calls is a value of this type; a fallible function returns \<open>error + 'a\<close>.
\<close>

datatype error =
    NotImplementedError
  | TypeError
  | AttributeError
  | ValueError
  | IndexError
  | RuntimeError
  | AssertionError

section \<open>Floats\<close>

text \<open>
  An entry of a numpy array or of a torch tensor is a float: a finite number, an infinity or
  NaN. Finite arithmetic is exact (no binary rounding, no overflow to an infinity, one
  zero); the non-finite values follow IEEE 754: NaN propagates and compares false with
  everything, \<open>inf - inf\<close>, \<open>0 * inf\<close>, \<open>0 / 0\<close> and \<open>inf / inf\<close> are NaN, and a
  non-zero number divided by zero is an infinity.
\<close>

datatype fval = Fin real | PInf | NInf | NaN

fun isfinite :: "fval \<Rightarrow> bool" where
  "isfinite (Fin x) = True"
| "isfinite v = False"

fun fneg :: "fval \<Rightarrow> fval" where
  "fneg (Fin x) = Fin (- x)"
| "fneg PInf = NInf"
| "fneg NInf = PInf"
| "fneg NaN = NaN"

fun fadd :: "fval \<Rightarrow> fval \<Rightarrow> fval" where
  "fadd (Fin x) (Fin y) = Fin (x + y)"
| "fadd NaN v = NaN"
| "fadd v NaN = NaN"
| "fadd PInf NInf = NaN"
| "fadd NInf PInf = NaN"
| "fadd PInf v = PInf"
| "fadd v PInf = PInf"
| "fadd NInf v = NInf"
| "fadd v NInf = NInf"

definition fsub :: "fval \<Rightarrow> fval \<Rightarrow> fval" where
  "fsub a b = fadd a (fneg b)"

definition signed_inf :: "bool \<Rightarrow> fval" where
  "signed_inf positive = (if positive then PInf else NInf)"

fun fmul :: "fval \<Rightarrow> fval \<Rightarrow> fval" where
  "fmul (Fin x) (Fin y) = Fin (x * y)"
| "fmul NaN v = NaN"
| "fmul v NaN = NaN"
| "fmul (Fin x) PInf = (if x = 0 then NaN else signed_inf (0 < x))"
| "fmul (Fin x) NInf = (if x = 0 then NaN else signed_inf (x < 0))"
| "fmul PInf (Fin y) = (if y = 0 then NaN else signed_inf (0 < y))"
| "fmul NInf (Fin y) = (if y = 0 then NaN else signed_inf (y < 0))"
| "fmul PInf PInf = PInf"
| "fmul PInf NInf = NInf"
| "fmul NInf PInf = NInf"
| "fmul NInf NInf = PInf"

fun fdiv :: "fval \<Rightarrow> fval \<Rightarrow> fval" where
  "fdiv (Fin x) (Fin y) =
     (if y = 0 then (if x = 0 then NaN else signed_inf (0 < x)) else Fin (x / y))"
| "fdiv NaN v = NaN"
| "fdiv v NaN = NaN"
| "fdiv (Fin x) v = Fin 0"
| "fdiv PInf (Fin y) = signed_inf (0 \<le> y)"
| "fdiv NInf (Fin y) = signed_inf (y < 0)"
| "fdiv v w = NaN"

fun fless :: "fval \<Rightarrow> fval \<Rightarrow> bool" where
  "fless (Fin x) (Fin y) = (x < y)"
| "fless NaN v = False"
| "fless v NaN = False"
| "fless NInf NInf = False"
| "fless NInf v = True"
| "fless v PInf = (v \<noteq> PInf)"
| "fless v w = False"

fun fle :: "fval \<Rightarrow> fval \<Rightarrow> bool" where
  "fle (Fin x) (Fin y) = (x \<le> y)"
| "fle NaN v = False"
| "fle v NaN = False"
| "fle NInf v = True"
| "fle v PInf = True"
| "fle v w = False"

fun fsum :: "fval list \<Rightarrow> fval" where
  "fsum [] = Fin 0"
| "fsum (v # vs) = fadd v (fsum vs)"

definition of_bool_float :: "bool \<Rightarrow> fval" where
  "of_bool_float b = (if b then Fin 1 else Fin 0)"

section \<open>numpy arrays\<close>

text \<open>
  An action is a numpy value: a numpy scalar or 0-d array (\<open>Scalar\<close>) or a 1-d array
  (\<open>Vec\<close>), tagged with its dtype. Its entries are floats, NaN and the infinities
  included; an entry of an integer array is a whole number.
\<close>

datatype dtype = Float32 | Float64 | Int8 | Int32 | Int64


datatype shaped = Scalar fval | Vec "fval list"

datatype ndarray = NDArray (dtype: dtype) (data: shaped)


fun map_shaped :: "(fval \<Rightarrow> fval) \<Rightarrow> shaped \<Rightarrow> shaped" where
  "map_shaped f (Scalar x) = Scalar (f x)"
| "map_shaped f (Vec xs) = Vec (map f xs)"

text \<open>
  \<^verbatim>\<open>astype\<close> to a float dtype keeps the entry (the rounding to the narrower width is not
  modelled). To an integer dtype it converts as numpy does on x86-64, where the C cast
  compiles to the truncating conversion instruction: a finite entry is truncated towards
  zero; an entry whose truncation does not fit the register, an infinity and NaN give the
  register's most negative value (\<open>cvtt\<close>). \<^verbatim>\<open>int64\<close> converts in a 64-bit register,
  \<^verbatim>\<open>int32\<close> in a 32-bit one, and \<^verbatim>\<open>int8\<close> keeps the low byte of the 32-bit result, so it
  wraps around.
\<close>

definition trunc :: "real \<Rightarrow> int" where
  "trunc x = (if 0 \<le> x then \<lfloor>x\<rfloor> else \<lceil>x\<rceil>)"

fun cvtt :: "nat \<Rightarrow> fval \<Rightarrow> int" where
  "cvtt w (Fin x) =
     (if - (2 ^ (w - 1)) \<le> trunc x \<and> trunc x < 2 ^ (w - 1) then trunc x else - (2 ^ (w - 1)))"
| "cvtt w v = - (2 ^ (w - 1))"

definition low_byte :: "int \<Rightarrow> int" where
  "low_byte k = (k + 128) mod 256 - 128"

fun cast :: "dtype \<Rightarrow> fval \<Rightarrow> fval" where
  "cast Float32 v = v"
| "cast Float64 v = v"
| "cast Int8 v = Fin (of_int (low_byte (cvtt 32 v)))"
| "cast Int32 v = Fin (of_int (cvtt 32 v))"
| "cast Int64 v = Fin (of_int (cvtt 64 v))"

definition astype :: "dtype \<Rightarrow> ndarray \<Rightarrow> ndarray" where
  "astype d a = NDArray d (map_shaped (cast d) (data a))"

text \<open>
  \<^verbatim>\<open>ndarray.round()\<close> rounds a finite entry to the nearest integer, a tie to the even
  neighbour, and keeps an infinity and NaN.
\<close>

definition rint :: "real \<Rightarrow> real" where
  "rint x =
     (let f = \<lfloor>x\<rfloor>; d = x - of_int f
      in if d < 1 / 2 then of_int f
         else if 1 / 2 < d then of_int (f + 1)
         else if even f then of_int f else of_int (f + 1))"

fun fround :: "fval \<Rightarrow> fval" where
  "fround (Fin x) = Fin (rint x)"
| "fround v = v"

definition around :: "ndarray \<Rightarrow> ndarray" where
  "around a = NDArray (dtype a) (map_shaped fround (data a))"

text \<open>\<^verbatim>\<open>np.maximum\<close> and \<^verbatim>\<open>np.minimum\<close>: NaN if either operand is NaN.\<close>

fun fmaximum :: "fval \<Rightarrow> fval \<Rightarrow> fval" where
  "fmaximum NaN v = NaN"
| "fmaximum v NaN = NaN"
| "fmaximum a b = (if fless a b then b else a)"

fun fminimum :: "fval \<Rightarrow> fval \<Rightarrow> fval" where
  "fminimum NaN v = NaN"
| "fminimum v NaN = NaN"
| "fminimum a b = (if fless b a then b else a)"

text \<open>
  numpy broadcasting of two operands that are 0-d or 1-d: equal lengths go element by
  element, a length-1 array or a scalar is stretched, anything else is a \<open>ValueError\<close>.
\<close>

definition broadcastable :: "nat \<Rightarrow> nat \<Rightarrow> bool" where
  "broadcastable m k \<longleftrightarrow> m = k \<or> m = 1 \<or> k = 1"

definition stretch2 :: "('a \<Rightarrow> 'b \<Rightarrow> 'c) \<Rightarrow> 'a list \<Rightarrow> 'b list \<Rightarrow> 'c list" where
  "stretch2 f xs ys =
     (if length xs = length ys then map2 f xs ys
      else if length xs = 1 then map (f (hd xs)) ys
      else map (\<lambda>x. f x (hd ys)) xs)"

definition broadcast2 ::
  "('a \<Rightarrow> 'b \<Rightarrow> 'c) \<Rightarrow> 'a list \<Rightarrow> 'b list \<Rightarrow> error \<Rightarrow> error + 'c list"
where
  "broadcast2 f xs ys e =
     (if broadcastable (length xs) (length ys) then Inr (stretch2 f xs ys) else Inl e)"

fun binop :: "(fval \<Rightarrow> fval \<Rightarrow> fval) \<Rightarrow> shaped \<Rightarrow> shaped \<Rightarrow> error + shaped" where
  "binop f (Scalar x) (Scalar y) = Inr (Scalar (f x y))"
| "binop f (Scalar x) (Vec ys) = Inr (Vec (map (f x) ys))"
| "binop f (Vec xs) (Scalar y) = Inr (Vec (map (\<lambda>x. f x y) xs))"
| "binop f (Vec xs) (Vec ys) =
     (case broadcast2 f xs ys ValueError of Inl e \<Rightarrow> Inl e | Inr zs \<Rightarrow> Inr (Vec zs))"

text \<open>\<^verbatim>\<open>np.clip(a, lo, hi)\<close> is \<^verbatim>\<open>minimum(maximum(a, lo), hi)\<close> under broadcasting.\<close>

definition np_clip :: "ndarray \<Rightarrow> shaped \<Rightarrow> shaped \<Rightarrow> error + ndarray" where
  "np_clip a lo hi =
     (case binop fmaximum (data a) lo of
        Inl e \<Rightarrow> Inl e
      | Inr m \<Rightarrow>
          (case binop fminimum m hi of
             Inl e \<Rightarrow> Inl e
           | Inr r \<Rightarrow> Inr (NDArray (dtype a) r)))"

section \<open>gym action spaces\<close>

text \<open>
  The space kinds of \<^verbatim>\<open>gym.spaces\<close>: the four that \<^verbatim>\<open>reformat_action\<close> tests for, and
  the two composite kinds \<^verbatim>\<open>Tuple\<close> and \<^verbatim>\<open>Dict\<close> it does not. A task whose
  \<^verbatim>\<open>action_space\<close> is \<^verbatim>\<open>None\<close> has the space \<open>None\<close>. The bounds of a \<^verbatim>\<open>Box\<close>
  are finite numbers.
\<close>

datatype space =
    Box (low: "real list") (high: "real list") dtype
  | Discrete int
  | MultiBinary nat dtype
  | MultiDiscrete "int list" dtype
  | Tuple "space list"
  | Dict "(string \<times> space) list"

section \<open>Task\<close>

fun reformat_action :: "space option \<Rightarrow> ndarray \<Rightarrow> error + ndarray" where
  "reformat_action (Some (Box lo hi d)) action = Inr (astype d action)"
| "reformat_action (Some (Discrete n)) action =
     (case np_clip (around action) (Scalar (Fin 0)) (Scalar (Fin (of_int (n - 1)))) of
        Inl e \<Rightarrow> Inl e
      | Inr c \<Rightarrow> Inr (astype Int64 c))"
| "reformat_action (Some (MultiBinary n d)) action =
     (case np_clip (around action) (Scalar (Fin 0)) (Scalar (Fin 1)) of
        Inl e \<Rightarrow> Inl e
      | Inr c \<Rightarrow> Inr (astype d c))"
| "reformat_action (Some (MultiDiscrete nvec d)) action =
     (case np_clip (around action) (Scalar (Fin 0))
             (Vec (map (\<lambda>k. Fin (of_int (k - 1))) nvec)) of
        Inl e \<Rightarrow> Inl e
      | Inr c \<Rightarrow> Inr (astype d c))"
| "reformat_action None action = Inr action"
| "reformat_action (Some (Tuple ss)) action = Inl NotImplementedError"
| "reformat_action (Some (Dict kvs)) action = Inl NotImplementedError"

text \<open>
  What \<^verbatim>\<open>super().step\<close> and \<^verbatim>\<open>super().reset\<close> resolve to is a parameter
  \<open>native\<close>: it takes the simulator state and the action and gives what the call returns
  or raises, with the simulator state it leaves behind. A call that raises still carries
  the state it left. For \<^verbatim>\<open>Task.step\<close> in a concrete task class the parameter is the
  simulator's own step; for \<^verbatim>\<open>MujocoTask.step\<close> and \<^verbatim>\<open>CartPoleTask.step\<close> the method
  resolution order puts \<^verbatim>\<open>Task.step\<close> next, so there the parameter is
  \<open>Task_step\<close> of the simulator's step.
  \<open>call_native\<close> is the last two lines that \<^verbatim>\<open>Task.step\<close> and \<^verbatim>\<open>MujocoTask.step\<close>
  share: the call of \<^verbatim>\<open>super().step\<close> and the return with \<^verbatim>\<open>np.float32(next_state)\<close>.
\<close>

type_synonym 'info step_result = "ndarray \<times> real \<times> bool \<times> 'info"

type_synonym ('sim, 'info) native_step =
  "'sim \<Rightarrow> ndarray \<Rightarrow> (error + 'info step_result) \<times> 'sim"


definition float32 :: "ndarray \<Rightarrow> ndarray" where
  "float32 a = astype Float32 a"

definition call_native ::
  "('sim, 'info) native_step \<Rightarrow> 'sim \<Rightarrow> ndarray \<Rightarrow> (error + 'info step_result) \<times> 'sim"
where
  "call_native native s a =
     (case native s a of
        (Inl e, s') \<Rightarrow> (Inl e, s')
      | (Inr (next_state, reward, done, info), s') \<Rightarrow>
          (Inr (float32 next_state, reward, done, info), s'))"

definition Task_step ::
  "('sim, 'info) native_step \<Rightarrow> space option \<Rightarrow> 'sim \<Rightarrow> ndarray
     \<Rightarrow> (error + 'info step_result) \<times> 'sim"
where
  "Task_step native action_space s action =
     (case reformat_action action_space action of
        Inl e \<Rightarrow> (Inl e, s)
      | Inr a \<Rightarrow> call_native native s a)"


section \<open>MujocoTask\<close>

text \<open>
  \<^verbatim>\<open>if self.action_space:\<close> holds for every space object and fails for \<^verbatim>\<open>None\<close>;
  only a \<^verbatim>\<open>Box\<close> has the attributes \<^verbatim>\<open>low\<close> and \<^verbatim>\<open>high\<close>.
\<close>

fun clip_to_space :: "space option \<Rightarrow> ndarray \<Rightarrow> error + ndarray" where
  "clip_to_space None a = Inr a"
| "clip_to_space (Some (Box lo hi d)) a = np_clip a (Vec (map Fin lo)) (Vec (map Fin hi))"
| "clip_to_space (Some sp) a = Inl AttributeError"

definition MujocoTask_step ::
  "('sim, 'info) native_step \<Rightarrow> space option \<Rightarrow> 'sim \<Rightarrow> ndarray
     \<Rightarrow> (error + 'info step_result) \<times> 'sim"
where
  "MujocoTask_step native action_space s action =
     (case reformat_action action_space action of
        Inl e \<Rightarrow> (Inl e, s)
      | Inr a \<Rightarrow>
          (case clip_to_space action_space a of
             Inl e \<Rightarrow> (Inl e, s)
           | Inr a' \<Rightarrow> call_native native s a'))"

section \<open>CartPoleTask\<close>

text \<open>
  \<^verbatim>\<open>reformat_action(*action)\<close> iterates over the action and passes each item as one
  positional argument. A numpy scalar or 0-d array cannot be iterated; a 1-d array yields its
  entries as numpy scalars of the same dtype. \<^verbatim>\<open>reformat_action\<close> takes one argument.
\<close>

fun unpack :: "ndarray \<Rightarrow> error + ndarray list" where
  "unpack (NDArray d (Scalar x)) = Inl TypeError"
| "unpack (NDArray d (Vec xs)) = Inr (map (\<lambda>x. NDArray d (Scalar x)) xs)"

fun reformat_action_args :: "space option \<Rightarrow> ndarray list \<Rightarrow> error + ndarray" where
  "reformat_action_args sp [a] = reformat_action sp a"
| "reformat_action_args sp args = Inl TypeError"

definition CartPoleTask_step ::
  "('sim, 'info) native_step \<Rightarrow> space option \<Rightarrow> 'sim \<Rightarrow> ndarray
     \<Rightarrow> (error + 'info step_result) \<times> 'sim"
where
  "CartPoleTask_step native action_space s action =
     (case unpack action of
        Inl e \<Rightarrow> (Inl e, s)
      | Inr args \<Rightarrow>
          (case reformat_action_args action_space args of
             Inl e \<Rightarrow> (Inl e, s)
           | Inr a \<Rightarrow>
               (case native s a of
                  (Inl e, s') \<Rightarrow> (Inl e, s')
                | (Inr (next_state, reward, done, info), s') \<Rightarrow>
                    (Inr (float32 next_state, if done then 0 else reward, done, info), s'))))"

section \<open>torch tensors\<close>

text \<open>
  A 1-d tensor is the list of its entries; a 2-d tensor of shape \<open>[N, ncols]\<close> is its list
  of \<open>N\<close> rows with the column count kept beside it, so that a batch of no rows still has
  its width. \<open>wf_tensor2\<close> says that every row has that width.
\<close>

datatype tensor2 = Tensor2 (ncols: nat) (rows: "fval list list")

definition wf_tensor2 :: "tensor2 \<Rightarrow> bool" where
  "wf_tensor2 t \<longleftrightarrow> list_all (\<lambda>r. length r = ncols t) (rows t)"

definition bind_err :: "error + 'a \<Rightarrow> ('a \<Rightarrow> error + 'b) \<Rightarrow> error + 'b" where
  "bind_err m f = (case m of Inl e \<Rightarrow> Inl e | Inr x \<Rightarrow> f x)"

text \<open>\<^verbatim>\<open>t[:, k]\<close> for a literal \<open>k \<ge> 0\<close>: an \<^verbatim>\<open>IndexError\<close> when the tensor is narrower.\<close>

definition column :: "nat \<Rightarrow> tensor2 \<Rightarrow> error + fval list" where
  "column k t = (if k < ncols t then Inr (map (\<lambda>r. r ! k) (rows t)) else Inl IndexError)"

text \<open>An elementwise operation of two 1-d tensors; torch raises \<^verbatim>\<open>RuntimeError\<close>.\<close>

definition tensor_op :: "('a \<Rightarrow> 'b \<Rightarrow> 'c) \<Rightarrow> 'a list \<Rightarrow> 'b list \<Rightarrow> error + 'c list" where
  "tensor_op f xs ys = broadcast2 f xs ys RuntimeError"

definition pow2_sum_dim1 :: "tensor2 \<Rightarrow> fval list" where
  "pow2_sum_dim1 t = map (\<lambda>r. fsum (map (\<lambda>v. fmul v v) r)) (rows t)"

definition unsqueeze1 :: "fval list \<Rightarrow> tensor2" where
  "unsqueeze1 vs = Tensor2 1 (map (\<lambda>v. [v]) vs)"

definition zeros :: "nat \<Rightarrow> nat \<Rightarrow> tensor2" where
  "zeros n k = Tensor2 k (replicate n (replicate k (Fin 0)))"

text \<open>
  The random draws are a parameter: entry \<open>(i, j)\<close> of a sampled \<open>[n, k]\<close> tensor is made
  from the raw draw \<open>u i j\<close>, a number in \<open>[0, 1)\<close> for \<^verbatim>\<open>uniform_\<close> and a standard
  normal number for \<^verbatim>\<open>randn\<close>. A negative row count is torch's \<^verbatim>\<open>RuntimeError\<close>.
\<close>

type_synonym draws = "nat \<Rightarrow> nat \<Rightarrow> real"

definition sample_tensor :: "int \<Rightarrow> nat \<Rightarrow> (nat \<Rightarrow> nat \<Rightarrow> fval) \<Rightarrow> error + tensor2" where
  "sample_tensor n k entry =
     (if n < 0 then Inl RuntimeError
      else Inr (Tensor2 k (map (\<lambda>i. map (entry i) [0..<k]) [0..<nat n])))"

definition FloatTensor_uniform :: "int \<Rightarrow> nat \<Rightarrow> real \<Rightarrow> real \<Rightarrow> draws \<Rightarrow> error + tensor2" where
  "FloatTensor_uniform n k lo hi u = sample_tensor n k (\<lambda>i j. Fin (lo + (hi - lo) * u i j))"

definition randn :: "int \<Rightarrow> nat \<Rightarrow> draws \<Rightarrow> error + tensor2" where
  "randn n k g = sample_tensor n k (\<lambda>i j. Fin (g i j))"

definition scale_tensor2 :: "tensor2 \<Rightarrow> real \<Rightarrow> tensor2" where
  "scale_tensor2 t c = Tensor2 (ncols t) (map (map (\<lambda>v. fmul v (Fin c))) (rows t))"

text \<open>\<^verbatim>\<open>v + t\<close> for a 1-d \<open>v\<close> and a 2-d \<open>t\<close>: \<open>v\<close> is broadcast along the rows.\<close>

definition add_vec_tensor2 :: "fval list \<Rightarrow> tensor2 \<Rightarrow> error + tensor2" where
  "add_vec_tensor2 v t =
     (if broadcastable (length v) (ncols t)
      then Inr (Tensor2 (if ncols t = 1 then length v else ncols t)
                  (map (\<lambda>r. stretch2 fadd v r) (rows t)))
      else Inl RuntimeError)"

text \<open>\<^verbatim>\<open>torch.cat((a, b), -1)\<close> of two 2-d tensors: the row counts must agree.\<close>

definition cat_last :: "tensor2 \<Rightarrow> tensor2 \<Rightarrow> error + tensor2" where
  "cat_last a b =
     (if length (rows a) = length (rows b)
      then Inr (Tensor2 (ncols a + ncols b) (map2 (@) (rows a) (rows b)))
      else Inl RuntimeError)"

section \<open>The cart-pole task\<close>

record cartpole_env =
  x_threshold :: real
  theta_threshold_radians :: real
  cp_action_space :: "space option"
  cp_state :: "real list"

definition CartPoleTask_get_cost ::
  "cartpole_env \<Rightarrow> tensor2 \<Rightarrow> tensor2 \<Rightarrow> tensor2 \<Rightarrow> error + (fval list \<times> tensor2)"
where
  "CartPoleTask_get_cost self state action next_state =
     bind_err (column 0 next_state) (\<lambda>x.
     bind_err (column 2 next_state) (\<lambda>theta.
     bind_err (tensor_op (\<or>)
                 (map (\<lambda>v. fless v (Fin (- x_threshold self))) x)
                 (map (\<lambda>v. fless (Fin (x_threshold self)) v) x)) (\<lambda>b1.
     bind_err (tensor_op (\<or>) b1
                 (map (\<lambda>v. fless v (Fin (- theta_threshold_radians self))) theta)) (\<lambda>b2.
     bind_err (tensor_op (\<or>) b2
                 (map (\<lambda>v. fless (Fin (theta_threshold_radians self)) v) theta)) (\<lambda>b3.
       let done = map of_bool_float b3;
           cost = map (\<lambda>v. fsub v (Fin 1)) done
       in Inr (cost, unsqueeze1 done))))))"

definition CartPoleTask_get_reset_state ::
  "cartpole_env \<Rightarrow> int \<Rightarrow> draws \<Rightarrow> (error + tensor2) \<times> cartpole_env"
where
  "CartPoleTask_get_reset_state self n u =
     (FloatTensor_uniform n 4 (- (5 / 100)) (5 / 100) u, self)"

section \<open>The articulated-body tasks\<close>

text \<open>
  What \<^verbatim>\<open>task.py\<close> reads and writes of a MuJoCo environment: the model's dimensions
  \<^verbatim>\<open>model.nq\<close> and \<^verbatim>\<open>model.nv\<close>, the initial pose, the time step \<^verbatim>\<open>dt\<close>, the
  action space, and the simulator's generalized positions and velocities
  \<^verbatim>\<open>sim.data.qpos\<close> and \<^verbatim>\<open>sim.data.qvel\<close>.
\<close>

record mujoco_env =
  nq :: nat
  nv :: nat
  init_qpos :: "real list"
  init_qvel :: "real list"
  dt :: real
  action_space :: "space option"
  qpos :: "real list"
  qvel :: "real list"

definition get_obs :: "mujoco_env \<Rightarrow> real list" where
  "get_obs self = qpos self @ qvel self"

text \<open>
  Modelled from the spec: \<^verbatim>\<open>set_state\<close> is the native simulator's state-setter, which
  is not in \<^verbatim>\<open>task.py\<close>. The spec gives it as the operation that writes position and
  velocity components back into the simulator's internal state, for a position vector of
  the model's position-dimension count and a velocity vector of its velocity-dimension
  count; a vector of another length is refused.
\<close>

definition set_state :: "mujoco_env \<Rightarrow> real list \<Rightarrow> real list \<Rightarrow> (error + unit) \<times> mujoco_env" where
  "set_state self p v =
     (if length p = nq self \<and> length v = nv self
      then (Inr (), self\<lparr>qpos := p, qvel := v\<rparr>)
      else (Inl AssertionError, self))"

text \<open>The slice \<^verbatim>\<open>xs[a:b]\<close> for \<open>0 \<le> a \<le> b\<close>.\<close>

definition slice :: "nat \<Rightarrow> nat \<Rightarrow> 'a list \<Rightarrow> 'a list" where
  "slice a b xs = take (b - a) (drop a xs)"

definition set_new_state :: "mujoco_env \<Rightarrow> real list \<Rightarrow> (error + unit) \<times> mujoco_env" where
  "set_new_state self state =
     set_state self (slice 0 (nq self) state) (slice (nq self) (nq self + nv self) state)"

definition AntTask_get_cost ::
  "mujoco_env \<Rightarrow> tensor2 \<Rightarrow> tensor2 \<Rightarrow> tensor2 \<Rightarrow> error + (fval list \<times> tensor2)"
where
  "AntTask_get_cost self state action next_state =
     bind_err (column 0 state) (\<lambda>xposbefore.
     bind_err (column 0 next_state) (\<lambda>xposafter.
     bind_err (tensor_op fsub xposafter xposbefore) (\<lambda>d.
     let forward_reward = map (\<lambda>v. fdiv v (Fin (dt self))) d;
         ctrl_cost = map (fmul (Fin (1 / 2))) (pow2_sum_dim1 action);
         survive_reward = Fin 1
     in
     bind_err (tensor_op fsub forward_reward ctrl_cost) (\<lambda>r.
     let reward = map (\<lambda>v. fadd v survive_reward) r;
         finite = map (list_all isfinite) (rows next_state)
     in
     bind_err (column 2 next_state) (\<lambda>z.
     bind_err (tensor_op (\<and>) finite (map (\<lambda>v. fle (Fin (2 / 10)) v) z)) (\<lambda>n1.
     bind_err (tensor_op (\<and>) n1 (map (\<lambda>v. fle v (Fin 1)) z)) (\<lambda>notdone.
       Inr (map fneg reward, unsqueeze1 (map (\<lambda>b. of_bool_float (\<not> b)) notdone)))))))))"

definition HalfCheetahTask_get_cost ::
  "mujoco_env \<Rightarrow> tensor2 \<Rightarrow> tensor2 \<Rightarrow> tensor2 \<Rightarrow> error + (fval list \<times> tensor2)"
where
  "HalfCheetahTask_get_cost self state action next_state =
     bind_err (column 0 state) (\<lambda>xposbefore.
     bind_err (column 0 next_state) (\<lambda>xposafter.
     let reward_ctrl = map (fmul (Fin (- (1 / 10)))) (pow2_sum_dim1 action) in
     bind_err (tensor_op fsub xposafter xposbefore) (\<lambda>d.
     let reward_run = map (\<lambda>v. fdiv v (Fin (dt self))) d in
     bind_err (tensor_op fadd reward_ctrl reward_run) (\<lambda>r.
       Inr (map fneg r, zeros (length (rows state)) 1)))))"

definition SwimmerTask_get_cost ::
  "mujoco_env \<Rightarrow> tensor2 \<Rightarrow> tensor2 \<Rightarrow> tensor2 \<Rightarrow> error + (fval list \<times> tensor2)"
where
  "SwimmerTask_get_cost self state action next_state =
     bind_err (column 0 state) (\<lambda>xposbefore.
     bind_err (column 0 next_state) (\<lambda>xposafter.
     bind_err (tensor_op fsub xposafter xposbefore) (\<lambda>d.
     let reward_fwd = map (\<lambda>v. fdiv v (Fin (dt self))) d;
         reward_ctrl = map (fmul (Fin (- (1 / 10000)))) (pow2_sum_dim1 action)
     in
     bind_err (tensor_op fadd reward_fwd reward_ctrl) (\<lambda>r.
       Inr (map fneg r, zeros (length (rows state)) 1)))))"

text \<open>
  The three reset samplers differ in the velocity noise only: Gaussian draws scaled by 0.1
  for the ant and the half-cheetah, uniform draws in \<open>[-0.1, 0.1]\<close> for the swimmer.
\<close>

definition noisy_qpos :: "mujoco_env \<Rightarrow> int \<Rightarrow> draws \<Rightarrow> error + tensor2" where
  "noisy_qpos self n u =
     bind_err (FloatTensor_uniform n (nq self) (- (1 / 10)) (1 / 10) u)
       (add_vec_tensor2 (map Fin (init_qpos self)))"

definition gaussian_reset_state ::
  "mujoco_env \<Rightarrow> int \<Rightarrow> draws \<Rightarrow> draws \<Rightarrow> (error + tensor2) \<times> mujoco_env"
where
  "gaussian_reset_state self n u g =
     (bind_err (noisy_qpos self n u) (\<lambda>qp.
      bind_err (randn n (nv self) g) (\<lambda>noise.
      bind_err (add_vec_tensor2 (map Fin (init_qvel self)) (scale_tensor2 noise (1 / 10))) (\<lambda>qv.
        cat_last qp qv))), self)"

definition AntTask_get_reset_state ::
  "mujoco_env \<Rightarrow> int \<Rightarrow> draws \<Rightarrow> draws \<Rightarrow> (error + tensor2) \<times> mujoco_env"
where
  "AntTask_get_reset_state self n u g = gaussian_reset_state self n u g"

definition HalfCheetahTask_get_reset_state ::
  "mujoco_env \<Rightarrow> int \<Rightarrow> draws \<Rightarrow> draws \<Rightarrow> (error + tensor2) \<times> mujoco_env"
where
  "HalfCheetahTask_get_reset_state self n u g = gaussian_reset_state self n u g"

definition SwimmerTask_get_reset_state ::
  "mujoco_env \<Rightarrow> int \<Rightarrow> draws \<Rightarrow> draws \<Rightarrow> (error + tensor2) \<times> mujoco_env"
where
  "SwimmerTask_get_reset_state self n u u' =
     (bind_err (noisy_qpos self n u) (\<lambda>qp.
      bind_err (FloatTensor_uniform n (nv self) (- (1 / 10)) (1 / 10) u') (\<lambda>noise.
      bind_err (add_vec_tensor2 (map Fin (init_qvel self)) noise) (\<lambda>qv.
        cat_last qp qv))), self)"

section \<open>Vocabulary of the specification\<close>


text \<open>The spec's "an \<open>[n, k]\<close> sequence": \<open>n\<close> rows, each of \<open>k\<close> entries.\<close>

definition shaped_as :: "tensor2 \<Rightarrow> nat \<Rightarrow> nat \<Rightarrow> bool" where
  "shaped_as t n k \<longleftrightarrow> ncols t = k \<and> length (rows t) = n \<and> wf_tensor2 t"


section \<open>Unsupported action spaces\<close>

lemma binop_not_nie: "binop f a b \<noteq> Inl NotImplementedError"
  by (cases a; cases b) (auto simp: broadcast2_def split: sum.splits)

lemma np_clip_not_nie: "np_clip a lo hi \<noteq> Inl NotImplementedError"
  by (auto simp: np_clip_def binop_not_nie split: sum.splits)

lemma reformat_action_nie_iff:
  "reformat_action sp action = Inl NotImplementedError
     \<longleftrightarrow> (\<exists>ss. sp = Some (Tuple ss)) \<or> (\<exists>kvs. sp = Some (Dict kvs))"
proof (cases sp)
  case None
  then show ?thesis by simp
next
  case (Some k)
  then show ?thesis
    by (cases k) (auto simp: np_clip_not_nie split: sum.splits)
qed

text \<open>
  C8. For an action space of any kind other than Box, Discrete, MultiBinary, MultiDiscrete
  and None, that is a Tuple or a Dict space, \<^verbatim>\<open>reformat_action\<close> raises
  \<^verbatim>\<open>NotImplementedError\<close> (the spec's UnsupportedActionSpace) whatever the action is, and
  for the five supported kinds it never raises that error. The three step functions do not
  catch it: each returns the same error to its caller and leaves the simulator as it was
  (for the cart-pole step, once the action has unpacked to one item).
\<close>

theorem reformat_action_unsupported:
  "reformat_action (Some (Tuple ss)) action = Inl NotImplementedError
   \<and> reformat_action (Some (Dict kvs)) action = Inl NotImplementedError
   \<and> (reformat_action sp action = Inl NotImplementedError
        \<longleftrightarrow> (\<exists>ss. sp = Some (Tuple ss)) \<or> (\<exists>kvs. sp = Some (Dict kvs)))
   \<and> ((\<exists>ss. sp = Some (Tuple ss)) \<or> (\<exists>kvs. sp = Some (Dict kvs)) \<longrightarrow>
        Task_step native sp s action = (Inl NotImplementedError, s)
        \<and> MujocoTask_step native sp s action = (Inl NotImplementedError, s)
        \<and> CartPoleTask_step native sp s (NDArray d (Vec [x])) = (Inl NotImplementedError, s))"
proof -
  have steps: "Task_step native sp s action = (Inl NotImplementedError, s)
        \<and> MujocoTask_step native sp s action = (Inl NotImplementedError, s)
        \<and> CartPoleTask_step native sp s (NDArray d (Vec [x])) = (Inl NotImplementedError, s)"
    if "\<And>a. reformat_action sp a = Inl NotImplementedError"
    using that by (simp add: Task_step_def MujocoTask_step_def CartPoleTask_step_def)
  have unsup: "reformat_action sp a = Inl NotImplementedError"
    if "(\<exists>ss. sp = Some (Tuple ss)) \<or> (\<exists>kvs. sp = Some (Dict kvs))" for a
    using that by auto
  show ?thesis
    using steps unsup reformat_action_nie_iff [of sp action] by auto
qed

theorem reformat_action_unsupported_witness:
  "reformat_action (Some (Tuple [Discrete 2, Discrete 3])) (NDArray Float64 (Vec [Fin (1 / 2)]))
     = Inl NotImplementedError
   \<and> Task_step (\<lambda>(n::nat) a. (Inr (a, 1, False, ()), Suc n))
        (Some (Tuple [Discrete 2, Discrete 3])) 0 (NDArray Float64 (Vec [Fin (1 / 2)]))
     = (Inl NotImplementedError, 0)
   \<and> MujocoTask_step (\<lambda>(n::nat) a. (Inr (a, 1, False, ()), Suc n))
        (Some (Tuple [Discrete 2, Discrete 3])) 0 (NDArray Float64 (Vec [Fin (1 / 2)]))
     = (Inl NotImplementedError, 0)
   \<and> CartPoleTask_step (\<lambda>(n::nat) a. (Inr (a, 1, False, ()), Suc n))
        (Some (Tuple [Discrete 2, Discrete 3])) 0 (NDArray Float64 (Vec [Fin (1 / 2)]))
     = (Inl NotImplementedError, 0)"
  using reformat_action_unsupported
    [of "[Discrete 2, Discrete 3]" "NDArray Float64 (Vec [Fin (1 / 2)])" "[]"
        "Some (Tuple [Discrete 2, Discrete 3])"
        "\<lambda>(n::nat) a. (Inr (a, 1, False, ()), Suc n)" 0 Float64 "Fin (1 / 2)"]
  by simp

section \<open>Action normalization\<close>

























section \<open>Stepping and resetting\<close>















section \<open>The cart-pole step\<close>

lemma CartPoleTask_step_scalar:
  "CartPoleTask_step native sp s (NDArray d (Scalar x)) = (Inl TypeError, s)"
  by (simp add: CartPoleTask_step_def)

lemma CartPoleTask_step_length:
  "length xs \<noteq> 1 \<Longrightarrow> CartPoleTask_step native sp s (NDArray d (Vec xs)) = (Inl TypeError, s)"
proof (cases xs)
  case Nil
  then show ?thesis by (simp add: CartPoleTask_step_def)
next
  case (Cons y ys)
  assume "length xs \<noteq> 1"
  with Cons obtain z zs where "ys = z # zs" by (cases ys) auto
  with Cons show ?thesis by (simp add: CartPoleTask_step_def)
qed

lemma CartPoleTask_step_single:
  "CartPoleTask_step native sp s (NDArray d (Vec [x])) =
     (case reformat_action sp (NDArray d (Scalar x)) of
        Inl e \<Rightarrow> (Inl e, s)
      | Inr a \<Rightarrow>
          (case native s a of
             (Inl e, s') \<Rightarrow> (Inl e, s')
           | (Inr (ns, r, dn, info), s') \<Rightarrow>
               (Inr (float32 ns, if dn then 0 else r, dn, info), s')))"
  by (simp add: CartPoleTask_step_def)

lemma CartPoleTask_step_returns:
  assumes "CartPoleTask_step native sp s action = (Inr res, s')"
  shows "\<exists>x. action = NDArray (dtype action) (Vec [x])"
proof (cases action)
  case (NDArray d sh)
  show ?thesis
  proof (cases sh)
    case (Scalar x)
    with NDArray assms show ?thesis by (simp add: CartPoleTask_step_scalar)
  next
    case (Vec xs)
    have "length xs = 1"
    proof (rule ccontr)
      assume "length xs \<noteq> 1"
      from CartPoleTask_step_length [OF this, of native sp s d] NDArray Vec assms
      show False by simp
    qed
    then obtain x where "xs = [x]" by (cases xs) auto
    with NDArray Vec show ?thesis by simp
  qed
qed

text \<open>
  C9. Whenever \<^verbatim>\<open>CartPoleTask.step\<close> returns, it was given a one-entry array, the entry
  normalized by \<^verbatim>\<open>reformat_action\<close> went to the native step, and the returned reward is
  0 if the native step reported done and the native reward otherwise; so a returned done
  comes with reward 0. \<^verbatim>\<open>Task.step\<close>, the generic step, returns the native reward
  whatever done is.
\<close>

theorem cartpole_step_zeroes_reward:
  "(CartPoleTask_step native sp s action = (Inr (ns', r', dn', info'), s') \<longrightarrow>
      (dn' \<longrightarrow> r' = 0)
      \<and> (\<exists>x a ns r. action = NDArray (dtype action) (Vec [x])
            \<and> reformat_action sp (NDArray (dtype action) (Scalar x)) = Inr a
            \<and> native s a = (Inr (ns, r, dn', info'), s')
            \<and> ns' = float32 ns \<and> r' = (if dn' then 0 else r)))
   \<and> (reformat_action sp (NDArray d (Scalar x)) = Inr a
        \<and> native s a = (Inr (ns, r, True, info), s') \<longrightarrow>
      CartPoleTask_step native sp s (NDArray d (Vec [x])) = (Inr (float32 ns, 0, True, info), s'))
   \<and> (reformat_action sp (NDArray d (Scalar x)) = Inr a
        \<and> native s a = (Inr (ns, r, False, info), s') \<longrightarrow>
      CartPoleTask_step native sp s (NDArray d (Vec [x])) = (Inr (float32 ns, r, False, info), s'))
   \<and> (reformat_action sp action = Inr a \<and> native s a = (Inr (ns, r, dn, info), s') \<longrightarrow>
      Task_step native sp s action = (Inr (float32 ns, r, dn, info), s'))"
proof -
  have ret: "(dn' \<longrightarrow> r' = 0)
      \<and> (\<exists>x a ns r. action = NDArray (dtype action) (Vec [x])
            \<and> reformat_action sp (NDArray (dtype action) (Scalar x)) = Inr a
            \<and> native s a = (Inr (ns, r, dn', info'), s')
            \<and> ns' = float32 ns \<and> r' = (if dn' then 0 else r))"
    if st: "CartPoleTask_step native sp s action = (Inr (ns', r', dn', info'), s')"
  proof -
    from CartPoleTask_step_returns [OF st]
    obtain x where x: "action = NDArray (dtype action) (Vec [x])" by blast
    let ?d = "dtype action"
    from st x have eq: "(case reformat_action sp (NDArray ?d (Scalar x)) of
        Inl e \<Rightarrow> (Inl e, s)
      | Inr a \<Rightarrow>
          (case native s a of
             (Inl e, s') \<Rightarrow> (Inl e, s')
           | (Inr (ns, r, dn, info), s') \<Rightarrow>
               (Inr (float32 ns, if dn then 0 else r, dn, info), s')))
       = (Inr (ns', r', dn', info'), s')"
      using CartPoleTask_step_single [of native sp s ?d x] by simp
    then obtain a where a: "reformat_action sp (NDArray ?d (Scalar x)) = Inr a"
      by (cases "reformat_action sp (NDArray ?d (Scalar x))") auto
    from eq a obtain ns r where n: "native s a = (Inr (ns, r, dn', info'), s')"
      and r: "ns' = float32 ns" "r' = (if dn' then 0 else r)"
      by (auto split: prod.splits sum.splits)
    from r have "dn' \<longrightarrow> r' = 0" by simp
    with x a n r show ?thesis by blast
  qed
  have dn: "CartPoleTask_step native sp s (NDArray d (Vec [x])) = (Inr (float32 ns, 0, True, info), s')"
    if "reformat_action sp (NDArray d (Scalar x)) = Inr a" "native s a = (Inr (ns, r, True, info), s')"
    using that by (simp add: CartPoleTask_step_single)
  have alive: "CartPoleTask_step native sp s (NDArray d (Vec [x])) = (Inr (float32 ns, r, False, info), s')"
    if "reformat_action sp (NDArray d (Scalar x)) = Inr a" "native s a = (Inr (ns, r, False, info), s')"
    using that by (simp add: CartPoleTask_step_single)
  have base: "Task_step native sp s action = (Inr (float32 ns, r, dn, info), s')"
    if "reformat_action sp action = Inr a" "native s a = (Inr (ns, r, dn, info), s')"
    using that by (simp add: Task_step_def call_native_def)
  show ?thesis using ret dn alive base by blast
qed

theorem cartpole_step_zeroes_reward_witness:
  "reformat_action (Some (Discrete 2)) (NDArray Float64 (Scalar (Fin (7 / 10))))
     = Inr (NDArray Int64 (Scalar (Fin 1)))
   \<and> CartPoleTask_step (\<lambda>(n::nat) a. (Inr (a, 1, True, ()), Suc n)) (Some (Discrete 2)) 0
       (NDArray Float64 (Vec [Fin (7 / 10)]))
     = (Inr (NDArray Float32 (Scalar (Fin 1)), 0, True, ()), 1)
   \<and> CartPoleTask_step (\<lambda>(n::nat) a. (Inr (a, 1, False, ()), Suc n)) (Some (Discrete 2)) 0
       (NDArray Float64 (Vec [Fin (7 / 10)]))
     = (Inr (NDArray Float32 (Scalar (Fin 1)), 1, False, ()), 1)
   \<and> reformat_action (Some (Discrete 2)) (NDArray Float64 (Vec [Fin (7 / 10)]))
     = Inr (NDArray Int64 (Vec [Fin 1]))
   \<and> Task_step (\<lambda>(n::nat) a. (Inr (a, 1, True, ()), Suc n)) (Some (Discrete 2)) 0
       (NDArray Float64 (Vec [Fin (7 / 10)]))
     = (Inr (NDArray Float32 (Vec [Fin 1]), 1, True, ()), 1)"
proof -
  have r: "rint (7 / 10) = 1" by (simp add: rint_def Let_def)
  have n1: "reformat_action (Some (Discrete 2)) (NDArray Float64 (Scalar (Fin (7 / 10))))
     = Inr (NDArray Int64 (Scalar (Fin 1)))"
    by (simp add: r astype_def trunc_def np_clip_def around_def)
  have n2: "reformat_action (Some (Discrete 2)) (NDArray Float64 (Vec [Fin (7 / 10)]))
     = Inr (NDArray Int64 (Vec [Fin 1]))"
    by (simp add: r astype_def trunc_def np_clip_def around_def)
  have f: "float32 (NDArray Int64 (Scalar (Fin 1))) = NDArray Float32 (Scalar (Fin 1))"
    "float32 (NDArray Int64 (Vec [Fin 1])) = NDArray Float32 (Vec [Fin 1])"
    by (simp_all add: float32_def astype_def)
  have s1: "(\<lambda>(n::nat) a. (Inr (a, 1, True, ()) :: error + unit step_result, Suc n)) 0
       (NDArray Int64 (Scalar (Fin 1))) = (Inr (NDArray Int64 (Scalar (Fin 1)), 1, True, ()), 1)"
    and s2: "(\<lambda>(n::nat) a. (Inr (a, 1, False, ()) :: error + unit step_result, Suc n)) 0
       (NDArray Int64 (Scalar (Fin 1))) = (Inr (NDArray Int64 (Scalar (Fin 1)), 1, False, ()), 1)"
    and s3: "(\<lambda>(n::nat) a. (Inr (a, 1, True, ()) :: error + unit step_result, Suc n)) 0
       (NDArray Int64 (Vec [Fin 1])) = (Inr (NDArray Int64 (Vec [Fin 1]), 1, True, ()), 1)"
    by simp_all
  have a: "CartPoleTask_step (\<lambda>(n::nat) a. (Inr (a, 1, True, ()), Suc n)) (Some (Discrete 2)) 0
       (NDArray Float64 (Vec [Fin (7 / 10)]))
     = (Inr (NDArray Float32 (Scalar (Fin 1)), 0, True, ()), 1)"
    using cartpole_step_zeroes_reward
      [of "\<lambda>(n::nat) a. (Inr (a, 1, True, ()), Suc n)" "Some (Discrete 2)" 0
          "NDArray Float64 (Vec [Fin (7 / 10)])" "NDArray Float32 (Scalar (Fin 1))" 0 True "()" 1
          Float64 "Fin (7 / 10)" "NDArray Int64 (Scalar (Fin 1))" "NDArray Int64 (Scalar (Fin 1))" 1 "()" True,
        THEN conjunct2, THEN conjunct1, THEN mp, OF conjI, OF n1 s1]
    by (simp only: f)
  have b: "CartPoleTask_step (\<lambda>(n::nat) a. (Inr (a, 1, False, ()), Suc n)) (Some (Discrete 2)) 0
       (NDArray Float64 (Vec [Fin (7 / 10)]))
     = (Inr (NDArray Float32 (Scalar (Fin 1)), 1, False, ()), 1)"
    using cartpole_step_zeroes_reward
      [of "\<lambda>(n::nat) a. (Inr (a, 1, False, ()), Suc n)" "Some (Discrete 2)" 0
          "NDArray Float64 (Vec [Fin (7 / 10)])" "NDArray Float32 (Scalar (Fin 1))" 1 False "()" 1
          Float64 "Fin (7 / 10)" "NDArray Int64 (Scalar (Fin 1))" "NDArray Int64 (Scalar (Fin 1))" 1 "()" False,
        THEN conjunct2, THEN conjunct2, THEN conjunct1, THEN mp, OF conjI, OF n1 s2]
    by (simp only: f)
  have c: "Task_step (\<lambda>(n::nat) a. (Inr (a, 1, True, ()), Suc n)) (Some (Discrete 2)) 0
       (NDArray Float64 (Vec [Fin (7 / 10)]))
     = (Inr (NDArray Float32 (Vec [Fin 1]), 1, True, ()), 1)"
    using cartpole_step_zeroes_reward
      [of "\<lambda>(n::nat) a. (Inr (a, 1, True, ()), Suc n)" "Some (Discrete 2)" 0
          "NDArray Float64 (Vec [Fin (7 / 10)])" "NDArray Float32 (Scalar (Fin 1))" 0 True "()" 1
          Float64 "Fin (7 / 10)" "NDArray Int64 (Vec [Fin 1])" "NDArray Int64 (Vec [Fin 1])" 1 "()" True,
        THEN conjunct2, THEN conjunct2, THEN conjunct2, THEN mp, OF conjI, OF n2 s3]
    by (simp only: f)
  show ?thesis
    by (intro conjI) (rule a b c n1 n2)+
qed

text \<open>
  C10. \<^verbatim>\<open>CartPoleTask.step\<close> unpacks its action into the arguments of
  \<^verbatim>\<open>reformat_action\<close>: a scalar action, which cannot be iterated, and an array whose
  length is not 1 end in \<^verbatim>\<open>TypeError\<close> with the simulator untouched, whatever the
  native step is; for a one-entry array the normalization is applied to that entry, as a
  scalar, and its result is what the native step receives. \<^verbatim>\<open>Task.step\<close> normalizes the
  action as a whole and hands it on, scalar or array of any length.
\<close>

theorem cartpole_step_unpacks_action:
  "CartPoleTask_step native sp s (NDArray d (Scalar x)) = (Inl TypeError, s)
   \<and> (length xs \<noteq> 1 \<longrightarrow>
        CartPoleTask_step native sp s (NDArray d (Vec xs)) = (Inl TypeError, s))
   \<and> (reformat_action sp (NDArray d (Scalar x)) = Inl e \<longrightarrow>
        CartPoleTask_step native sp s (NDArray d (Vec [x])) = (Inl e, s))
   \<and> (reformat_action sp (NDArray d (Scalar x)) = Inr a \<longrightarrow>
        CartPoleTask_step native sp s (NDArray d (Vec [x])) =
          (case native s a of
             (Inl e, s') \<Rightarrow> (Inl e, s')
           | (Inr (ns, r, dn, info), s') \<Rightarrow>
               (Inr (float32 ns, if dn then 0 else r, dn, info), s')))
   \<and> (reformat_action sp action = Inr a \<longrightarrow>
        Task_step native sp s action =
          (case native s a of
             (Inl e, s') \<Rightarrow> (Inl e, s')
           | (Inr (ns, r, dn, info), s') \<Rightarrow> (Inr (float32 ns, r, dn, info), s')))
   \<and> Task_step native None s (NDArray d (Scalar x)) =
          (case native s (NDArray d (Scalar x)) of
             (Inl e, s') \<Rightarrow> (Inl e, s')
           | (Inr (ns, r, dn, info), s') \<Rightarrow> (Inr (float32 ns, r, dn, info), s'))
   \<and> Task_step native None s (NDArray d (Vec xs)) =
          (case native s (NDArray d (Vec xs)) of
             (Inl e, s') \<Rightarrow> (Inl e, s')
           | (Inr (ns, r, dn, info), s') \<Rightarrow> (Inr (float32 ns, r, dn, info), s'))"
  using CartPoleTask_step_length [of xs native sp s d]
  by (simp add: CartPoleTask_step_scalar CartPoleTask_step_single Task_step_def call_native_def)

theorem cartpole_step_unpacks_action_witness:
  "length [Fin (1 / 2), Fin (1 / 2)] = 2
   \<and> CartPoleTask_step (\<lambda>(n::nat) a. (Inr (a, 1, False, ()), Suc n)) (Some (Discrete 2)) 0
       (NDArray Float64 (Vec [Fin (1 / 2), Fin (1 / 2)]))
     = (Inl TypeError, 0)
   \<and> CartPoleTask_step (\<lambda>(n::nat) a. (Inr (a, 1, False, ()), Suc n)) (Some (Discrete 2)) 0
       (NDArray Float64 (Scalar (Fin (7 / 10))))
     = (Inl TypeError, 0)
   \<and> reformat_action (Some (Discrete 2)) (NDArray Float64 (Scalar (Fin (7 / 10))))
     = Inr (NDArray Int64 (Scalar (Fin 1)))
   \<and> CartPoleTask_step (\<lambda>(n::nat) a. (Inr (a, 1, False, ()), Suc n)) (Some (Discrete 2)) 0
       (NDArray Float64 (Vec [Fin (7 / 10)]))
     = (Inr (NDArray Float32 (Scalar (Fin 1)), 1, False, ()), 1)
   \<and> reformat_action (Some (Discrete 2)) (NDArray Float64 (Vec [Fin (1 / 2), Fin (1 / 2)]))
     = Inr (NDArray Int64 (Vec [Fin 0, Fin 0]))
   \<and> Task_step (\<lambda>(n::nat) a. (Inr (a, 1, False, ()), Suc n)) (Some (Discrete 2)) 0
       (NDArray Float64 (Vec [Fin (1 / 2), Fin (1 / 2)]))
     = (Inr (NDArray Float32 (Vec [Fin 0, Fin 0]), 1, False, ()), 1)"
proof -
  have r: "rint (7 / 10) = 1" "rint (1 / 2) = 0" by (simp_all add: rint_def Let_def)
  have n1: "reformat_action (Some (Discrete 2)) (NDArray Float64 (Scalar (Fin (7 / 10))))
     = Inr (NDArray Int64 (Scalar (Fin 1)))"
    by (simp add: r astype_def trunc_def np_clip_def around_def)
  have n2: "reformat_action (Some (Discrete 2)) (NDArray Float64 (Vec [Fin (1 / 2), Fin (1 / 2)]))
     = Inr (NDArray Int64 (Vec [Fin 0, Fin 0]))"
    by (simp add: r astype_def trunc_def np_clip_def around_def)
  have f: "float32 (NDArray Int64 (Scalar (Fin 1))) = NDArray Float32 (Scalar (Fin 1))"
    "float32 (NDArray Int64 (Vec [Fin 0, Fin 0])) = NDArray Float32 (Vec [Fin 0, Fin 0])"
    by (simp_all add: float32_def astype_def)
  have l: "length [Fin (1 / 2), Fin (1 / 2)] \<noteq> 1" by simp
  note t = cartpole_step_unpacks_action
      [of "\<lambda>(n::nat) a. (Inr (a, 1, False, ()), Suc n)" "Some (Discrete 2)" 0 Float64
          "Fin (7 / 10)" "[Fin (1 / 2), Fin (1 / 2)]" NotImplementedError "NDArray Int64 (Scalar (Fin 1))"
          "NDArray Float64 (Vec [Fin (1 / 2), Fin (1 / 2)])"]
  note t' = cartpole_step_unpacks_action
      [of "\<lambda>(n::nat) a. (Inr (a, 1, False, ()), Suc n)" "Some (Discrete 2)" 0 Float64
          "Fin (7 / 10)" "[Fin (1 / 2), Fin (1 / 2)]" NotImplementedError "NDArray Int64 (Vec [Fin 0, Fin 0])"
          "NDArray Float64 (Vec [Fin (1 / 2), Fin (1 / 2)])"]
  have a: "CartPoleTask_step (\<lambda>(n::nat) a. (Inr (a, 1, False, ()), Suc n))
       (Some (Discrete 2)) 0 (NDArray Float64 (Vec [Fin (1 / 2), Fin (1 / 2)])) = (Inl TypeError, 0)"
    by (rule t [THEN conjunct2, THEN conjunct1, THEN mp, OF l])
  have b: "CartPoleTask_step (\<lambda>(n::nat) a. (Inr (a, 1, False, ()), Suc n))
       (Some (Discrete 2)) 0 (NDArray Float64 (Scalar (Fin (7 / 10)))) = (Inl TypeError, 0)"
    by (rule t [THEN conjunct1])
  have c: "CartPoleTask_step (\<lambda>(n::nat) a. (Inr (a, 1, False, ()), Suc n))
       (Some (Discrete 2)) 0 (NDArray Float64 (Vec [Fin (7 / 10)]))
       = (Inr (NDArray Float32 (Scalar (Fin 1)), 1, False, ()), 1)"
    unfolding t [THEN conjunct2, THEN conjunct2, THEN conjunct2, THEN conjunct1, THEN mp, OF n1]
    by (simp add: f)
  have d: "Task_step (\<lambda>(n::nat) a. (Inr (a, 1, False, ()), Suc n))
       (Some (Discrete 2)) 0 (NDArray Float64 (Vec [Fin (1 / 2), Fin (1 / 2)]))
       = (Inr (NDArray Float32 (Vec [Fin 0, Fin 0]), 1, False, ()), 1)"
    unfolding t' [THEN conjunct2, THEN conjunct2, THEN conjunct2, THEN conjunct2,
        THEN conjunct1, THEN mp, OF n2]
    by (simp add: f)
  show ?thesis
  proof (intro conjI)
    show "length [Fin (1 / 2), Fin (1 / 2)] = 2" by simp
  qed (rule a b c d n1 n2)+
qed

section \<open>Cost and termination\<close>

lemma tensor_op_same_length:
  "length xs = length ys \<Longrightarrow> tensor_op f xs ys = Inr (map2 f xs ys)"
  by (simp add: tensor_op_def broadcast2_def broadcastable_def stretch2_def)

lemma column_ok: "k < ncols t \<Longrightarrow> column k t = Inr (map (\<lambda>r. r ! k) (rows t))"
  by (simp add: column_def)

lemma bind_err_Inr: "bind_err (Inr x) f = f x"
  by (simp add: bind_err_def)

lemma bind_err_Inl: "bind_err (Inl e) f = Inl e"
  by (simp add: bind_err_def)

lemma bind_err_returns:
  "bind_err m f = Inr y \<longleftrightarrow> (\<exists>x. m = Inr x \<and> f x = Inr y)"
  by (cases m) (simp_all add: bind_err_def)

lemma zeros_column: "zeros n (Suc 0) = Tensor2 (Suc 0) (replicate n [Fin 0])"
  by (simp add: zeros_def)

text \<open>
  C3. For a batch of \<open>N\<close> next-state rows with columns 0 and 2, the cart-pole
  \<^verbatim>\<open>get_cost\<close> returns \<open>N\<close> costs and a done of shape \<open>[N, 1]\<close>; done of row \<open>i\<close>
  is 1 exactly when the position (column 0) is below \<open>-x_threshold\<close> or above
  \<open>x_threshold\<close>, or the angle (column 2) is below \<open>-theta_threshold_radians\<close> or above
  \<open>theta_threshold_radians\<close>, and 0 otherwise; the cost is done minus 1, so 0 on failure
  and -1 while alive. The comparisons are those of floats (on finite numbers, the order of
  the reals; NaN is neither below nor above). With \<open>x_threshold = 0.2\<close> the row
  \<open>[0.3, _, 0.0, _]\<close> gives done 1 and cost 0, and with a non-negative angle threshold
  the row \<open>[0, 0, 0, 0]\<close> gives done 0 and cost -1.
\<close>

theorem cartpole_cost_done:
  "(2 < ncols next_state \<and> length (rows next_state) = N \<longrightarrow>
      (\<exists>cost done.
         CartPoleTask_get_cost self state action next_state = Inr (cost, done)
         \<and> length cost = N \<and> ncols done = 1 \<and> length (rows done) = N
         \<and> (\<forall>i < N.
               rows done ! i =
                 [of_bool_float
                    (fless (rows next_state ! i ! 0) (Fin (- x_threshold self))
                     \<or> fless (Fin (x_threshold self)) (rows next_state ! i ! 0)
                     \<or> fless (rows next_state ! i ! 2) (Fin (- theta_threshold_radians self))
                     \<or> fless (Fin (theta_threshold_radians self)) (rows next_state ! i ! 2))]
               \<and> cost ! i = fsub (hd (rows done ! i)) (Fin 1)
               \<and> (rows done ! i = [Fin 1] \<and> cost ! i = Fin 0
                    \<or> rows done ! i = [Fin 0] \<and> cost ! i = Fin (- 1)))))
   \<and> (fless (Fin x) (Fin (- x_threshold self)) \<or> fless (Fin (x_threshold self)) (Fin x)
        \<longleftrightarrow> x < - x_threshold self \<or> x_threshold self < x)
   \<and> (x_threshold self = 2 / 10 \<longrightarrow>
        CartPoleTask_get_cost self state action (Tensor2 4 [[Fin (3 / 10), v, Fin 0, w]])
          = Inr ([Fin 0], Tensor2 1 [[Fin 1]]))
   \<and> (x_threshold self = 2 / 10 \<and> 0 \<le> theta_threshold_radians self \<longrightarrow>
        CartPoleTask_get_cost self state action (Tensor2 4 [[Fin 0, Fin 0, Fin 0, Fin 0]])
          = Inr ([Fin (- 1)], Tensor2 1 [[Fin 0]]))"
proof -
  let ?out = "\<lambda>r. fless (r ! 0) (Fin (- x_threshold self))
                     \<or> fless (Fin (x_threshold self)) (r ! 0)
                     \<or> fless (r ! 2) (Fin (- theta_threshold_radians self))
                     \<or> fless (Fin (theta_threshold_radians self)) (r ! 2)"
  have eval: "CartPoleTask_get_cost self state action next_state
      = Inr (map (\<lambda>r. fsub (of_bool_float (?out r)) (Fin 1)) (rows next_state),
             Tensor2 1 (map (\<lambda>r. [of_bool_float (?out r)]) (rows next_state)))"
    if "2 < ncols next_state" for next_state
    using that
    by (simp add: CartPoleTask_get_cost_def column_ok bind_err_Inr tensor_op_same_length
        Let_def unsqueeze1_def zip_map1 zip_map2 zip_same_conv_map o_def disj_assoc)
  have batch: "\<exists>cost done.
         CartPoleTask_get_cost self state action next_state = Inr (cost, done)
         \<and> length cost = N \<and> ncols done = 1 \<and> length (rows done) = N
         \<and> (\<forall>i < N.
               rows done ! i = [of_bool_float (?out (rows next_state ! i))]
               \<and> cost ! i = fsub (hd (rows done ! i)) (Fin 1)
               \<and> (rows done ! i = [Fin 1] \<and> cost ! i = Fin 0
                    \<or> rows done ! i = [Fin 0] \<and> cost ! i = Fin (- 1)))"
    if "2 < ncols next_state" "length (rows next_state) = N"
    using that by (simp add: eval of_bool_float_def fsub_def)
  have fin: "fless (Fin x) (Fin (- x_threshold self)) \<or> fless (Fin (x_threshold self)) (Fin x)
        \<longleftrightarrow> x < - x_threshold self \<or> x_threshold self < x"
    by simp
  have ex1: "CartPoleTask_get_cost self state action (Tensor2 4 [[Fin (3 / 10), v, Fin 0, w]])
          = Inr ([Fin 0], Tensor2 1 [[Fin 1]])"
    if "x_threshold self = 2 / 10"
    using that by (simp add: eval of_bool_float_def fsub_def)
  have ex2: "CartPoleTask_get_cost self state action (Tensor2 4 [[Fin 0, Fin 0, Fin 0, Fin 0]])
          = Inr ([Fin (- 1)], Tensor2 1 [[Fin 0]])"
    if "x_threshold self = 2 / 10" "0 \<le> theta_threshold_radians self"
    using that by (simp add: eval of_bool_float_def fsub_def)
  show ?thesis using batch fin ex1 ex2 by blast
qed


theorem cartpole_cost_done_witness:
  "(\<exists>cost done.
      CartPoleTask_get_cost
        \<lparr>x_threshold = 2 / 10, theta_threshold_radians = 21 / 100,
          cp_action_space = Some (Discrete 2), cp_state = [0, 0, 0, 0]\<rparr>
        (Tensor2 4 [[Fin 0, Fin 0, Fin 0, Fin 0], [Fin 0, Fin 0, Fin 0, Fin 0]])
        (Tensor2 1 [[Fin 1], [Fin 0]])
        (Tensor2 4 [[Fin (3 / 10), Fin 1, Fin 0, NaN], [Fin 0, Fin 0, Fin 0, Fin 0]])
      = Inr (cost, done)
      \<and> length cost = 2 \<and> ncols done = 1 \<and> length (rows done) = 2
      \<and> rows done ! 0 = [Fin 1] \<and> cost ! 0 = Fin 0
      \<and> rows done ! 1 = [Fin 0] \<and> cost ! 1 = Fin (- 1))
   \<and> CartPoleTask_get_cost
        \<lparr>x_threshold = 2 / 10, theta_threshold_radians = 21 / 100,
          cp_action_space = Some (Discrete 2), cp_state = [0, 0, 0, 0]\<rparr>
        (Tensor2 4 [[Fin 0, Fin 0, Fin 0, Fin 0]]) (Tensor2 1 [[Fin 1]])
        (Tensor2 4 [[Fin (3 / 10), Fin 1, Fin 0, NaN]])
      = Inr ([Fin 0], Tensor2 1 [[Fin 1]])
   \<and> CartPoleTask_get_cost
        \<lparr>x_threshold = 2 / 10, theta_threshold_radians = 21 / 100,
          cp_action_space = Some (Discrete 2), cp_state = [0, 0, 0, 0]\<rparr>
        (Tensor2 4 [[Fin 0, Fin 0, Fin 0, Fin 0]]) (Tensor2 1 [[Fin 1]])
        (Tensor2 4 [[Fin 0, Fin 0, Fin 0, Fin 0]])
      = Inr ([Fin (- 1)], Tensor2 1 [[Fin 0]])"
proof -
  let ?self = "\<lparr>x_threshold = 2 / 10, theta_threshold_radians = 21 / 100,
          cp_action_space = Some (Discrete 2), cp_state = [0, 0, 0, 0]\<rparr>"
  let ?state = "Tensor2 4 [[Fin 0, Fin 0, Fin 0, Fin 0], [Fin 0, Fin 0, Fin 0, Fin 0]]"
  let ?action = "Tensor2 1 [[Fin 1], [Fin 0]]"
  let ?next = "Tensor2 4 [[Fin (3 / 10), Fin 1, Fin 0, NaN], [Fin 0, Fin 0, Fin 0, Fin 0]]"
  have h: "2 < ncols ?next \<and> length (rows ?next) = 2" by simp
  have hx: "x_threshold ?self = 2 / 10" by simp
  have ht: "x_threshold ?self = 2 / 10 \<and> 0 \<le> theta_threshold_radians ?self" by simp
  from cartpole_cost_done [of ?next 2 ?self ?state ?action, THEN conjunct1, THEN mp, OF h]
  obtain cost dn where r: "CartPoleTask_get_cost ?self ?state ?action ?next = Inr (cost, dn)"
    and l: "length cost = 2" "ncols dn = 1" "length (rows dn) = 2"
    and e: "\<forall>i < 2.
               rows dn ! i =
                 [of_bool_float
                    (fless (rows ?next ! i ! 0) (Fin (- x_threshold ?self))
                     \<or> fless (Fin (x_threshold ?self)) (rows ?next ! i ! 0)
                     \<or> fless (rows ?next ! i ! 2) (Fin (- theta_threshold_radians ?self))
                     \<or> fless (Fin (theta_threshold_radians ?self)) (rows ?next ! i ! 2))]
               \<and> cost ! i = fsub (hd (rows dn ! i)) (Fin 1)
               \<and> (rows dn ! i = [Fin 1] \<and> cost ! i = Fin 0
                    \<or> rows dn ! i = [Fin 0] \<and> cost ! i = Fin (- 1))"
    by blast
  from e have e0: "rows dn ! 0 = [Fin 1] \<and> cost ! 0 = Fin 0"
    by (simp add: of_bool_float_def fsub_def)
  have "(1::nat) < 2" by simp
  with e have "rows dn ! 1 =
                 [of_bool_float
                    (fless (rows ?next ! 1 ! 0) (Fin (- x_threshold ?self))
                     \<or> fless (Fin (x_threshold ?self)) (rows ?next ! 1 ! 0)
                     \<or> fless (rows ?next ! 1 ! 2) (Fin (- theta_threshold_radians ?self))
                     \<or> fless (Fin (theta_threshold_radians ?self)) (rows ?next ! 1 ! 2))]
               \<and> cost ! 1 = fsub (hd (rows dn ! 1)) (Fin 1)"
    by blast
  then have e1: "rows dn ! 1 = [Fin 0] \<and> cost ! 1 = Fin (- 1)"
    by (simp add: of_bool_float_def fsub_def)
  have b: "\<exists>cost done.
      CartPoleTask_get_cost ?self ?state ?action ?next = Inr (cost, done)
      \<and> length cost = 2 \<and> ncols done = 1 \<and> length (rows done) = 2
      \<and> rows done ! 0 = [Fin 1] \<and> cost ! 0 = Fin 0
      \<and> rows done ! 1 = [Fin 0] \<and> cost ! 1 = Fin (- 1)"
    using r l e0 e1 by blast
  note x1 = cartpole_cost_done
      [of ?next 2 ?self "Tensor2 4 [[Fin 0, Fin 0, Fin 0, Fin 0]]" "Tensor2 1 [[Fin 1]]" 0
          "Fin 1" NaN,
        THEN conjunct2, THEN conjunct2, THEN conjunct1, THEN mp, OF hx]
  note x2 = cartpole_cost_done
      [of ?next 2 ?self "Tensor2 4 [[Fin 0, Fin 0, Fin 0, Fin 0]]" "Tensor2 1 [[Fin 1]]" 0
          "Fin 1" NaN,
        THEN conjunct2, THEN conjunct2, THEN conjunct2, THEN mp, OF ht]
  show ?thesis
    by (intro conjI) (rule b x1 x2)+
qed

text \<open>
  C5. Whenever the half-cheetah or the swimmer \<^verbatim>\<open>get_cost\<close> returns, its done is the
  all-zero column with one row per row of \<open>state\<close>, whatever the entries of the three
  tensors are. It does return, with a cost per row, for every batch of \<open>N\<close> rows whose
  state and next state have a column 0.
\<close>

theorem never_terminal:
  "(HalfCheetahTask_get_cost self state action next_state = Inr (cost, done) \<longrightarrow>
      done = Tensor2 1 (replicate (length (rows state)) [Fin 0]))
   \<and> (SwimmerTask_get_cost self state action next_state = Inr (cost, done) \<longrightarrow>
      done = Tensor2 1 (replicate (length (rows state)) [Fin 0]))
   \<and> (0 < ncols state \<and> 0 < ncols next_state \<and> length (rows state) = N
        \<and> length (rows action) = N \<and> length (rows next_state) = N \<longrightarrow>
      (\<exists>c. HalfCheetahTask_get_cost self state action next_state
             = Inr (c, Tensor2 1 (replicate N [Fin 0])) \<and> length c = N)
      \<and> (\<exists>c. SwimmerTask_get_cost self state action next_state
             = Inr (c, Tensor2 1 (replicate N [Fin 0])) \<and> length c = N))"
proof -
  have hc: "done = Tensor2 1 (replicate (length (rows state)) [Fin 0])"
    if "HalfCheetahTask_get_cost self state action next_state = Inr (cost, done)"
    using that
    by (auto simp: HalfCheetahTask_get_cost_def bind_err_returns Let_def zeros_column)
  have sw: "done = Tensor2 1 (replicate (length (rows state)) [Fin 0])"
    if "SwimmerTask_get_cost self state action next_state = Inr (cost, done)"
    using that
    by (auto simp: SwimmerTask_get_cost_def bind_err_returns Let_def zeros_column)
  have tot: "(\<exists>c. HalfCheetahTask_get_cost self state action next_state
             = Inr (c, Tensor2 1 (replicate N [Fin 0])) \<and> length c = N)
      \<and> (\<exists>c. SwimmerTask_get_cost self state action next_state
             = Inr (c, Tensor2 1 (replicate N [Fin 0])) \<and> length c = N)"
    if "0 < ncols state" "0 < ncols next_state" "length (rows state) = N"
      "length (rows action) = N" "length (rows next_state) = N"
    using that
    by (simp add: HalfCheetahTask_get_cost_def SwimmerTask_get_cost_def column_ok
        bind_err_Inr tensor_op_same_length pow2_sum_dim1_def Let_def zeros_column)
  show ?thesis using hc sw tot by blast
qed


theorem never_terminal_witness:
  "(\<exists>c. HalfCheetahTask_get_cost
           \<lparr>nq = 1, nv = 1, init_qpos = [0], init_qvel = [0], dt = 1 / 20,
             action_space = None, qpos = [0], qvel = [0]\<rparr>
           (Tensor2 2 [[Fin 0, Fin 1], [NaN, PInf]]) (Tensor2 1 [[Fin 1], [Fin 2]])
           (Tensor2 2 [[Fin 1, Fin 1], [Fin 3, NInf]])
         = Inr (c, Tensor2 1 [[Fin 0], [Fin 0]]) \<and> length c = 2)
   \<and> (\<exists>c. SwimmerTask_get_cost
           \<lparr>nq = 1, nv = 1, init_qpos = [0], init_qvel = [0], dt = 1 / 20,
             action_space = None, qpos = [0], qvel = [0]\<rparr>
           (Tensor2 2 [[Fin 0, Fin 1], [NaN, PInf]]) (Tensor2 1 [[Fin 1], [Fin 2]])
           (Tensor2 2 [[Fin 1, Fin 1], [Fin 3, NInf]])
         = Inr (c, Tensor2 1 [[Fin 0], [Fin 0]]) \<and> length c = 2)"
proof -
  let ?state = "Tensor2 2 [[Fin 0, Fin 1], [NaN, PInf]]"
  let ?action = "Tensor2 1 [[Fin 1], [Fin 2]]"
  let ?next = "Tensor2 2 [[Fin 1, Fin 1], [Fin 3, NInf]]"
  have h: "0 < ncols ?state \<and> 0 < ncols ?next \<and> length (rows ?state) = 2
        \<and> length (rows ?action) = 2 \<and> length (rows ?next) = 2"
    by simp
  have z: "replicate 2 [Fin 0] = [[Fin 0], [Fin 0]]"
    by (simp add: numeral_2_eq_2)
  show ?thesis
    using never_terminal [of _ ?state ?action ?next "[]" "zeros 0 0" 2,
        THEN conjunct2, THEN conjunct2, THEN mp, OF h]
    by (simp only: z)
qed

section \<open>The ant's cost and termination\<close>

lemma fsum_Fin: "fsum (map (\<lambda>v. fmul v v) (map Fin xs)) = Fin (\<Sum>x\<leftarrow>xs. x * x)"
  by (induction xs) simp_all

lemma list_all_isfinite_nth:
  "list_all isfinite r \<Longrightarrow> k < length r \<Longrightarrow> \<exists>h. r ! k = Fin h"
proof -
  assume "list_all isfinite r" "k < length r"
  then have "isfinite (r ! k)" by (simp add: list_all_length)
  then show ?thesis by (cases "r ! k") simp_all
qed

lemma ant_done_iff:
  assumes "2 < length r"
  shows "\<not> (list_all isfinite r \<and> fle (Fin (2 / 10)) (r ! 2) \<and> fle (r ! 2) (Fin 1))
     \<longleftrightarrow> \<not> list_all isfinite r \<or> (\<exists>h. r ! 2 = Fin h \<and> (h < 2 / 10 \<or> 1 < h))"
proof (cases "list_all isfinite r")
  case True
  from list_all_isfinite_nth [OF True assms] obtain h where "r ! 2 = Fin h" by blast
  with True show ?thesis by (auto simp: not_le)
next
  case False
  then show ?thesis by simp
qed

lemma AntTask_get_cost_eval:
  assumes "0 < ncols state" "2 < ncols next_state" "length (rows state) = N"
    "length (rows action) = N" "length (rows next_state) = N"
  shows "\<exists>cost dn.
      AntTask_get_cost self state action next_state = Inr (cost, Tensor2 1 dn)
      \<and> length cost = N \<and> length dn = N
      \<and> (\<forall>i < N.
            cost ! i =
              fneg (fadd
                (fsub (fdiv (fsub (rows next_state ! i ! 0) (rows state ! i ! 0)) (Fin (dt self)))
                      (fmul (Fin (1 / 2)) (fsum (map (\<lambda>v. fmul v v) (rows action ! i)))))
                (Fin 1))
            \<and> dn ! i =
              [of_bool_float
                 (\<not> (list_all isfinite (rows next_state ! i)
                     \<and> fle (Fin (2 / 10)) (rows next_state ! i ! 2)
                     \<and> fle (rows next_state ! i ! 2) (Fin 1)))])"
  using assms
  by (simp add: AntTask_get_cost_def column_ok bind_err_Inr tensor_op_same_length
      Let_def unsqueeze1_def pow2_sum_dim1_def fsub_def conj_assoc)


lemma wf_tensor2_row: "wf_tensor2 t \<Longrightarrow> i < length (rows t) \<Longrightarrow> length (rows t ! i) = ncols t"
  by (simp add: wf_tensor2_def list_all_length)

text \<open>
  C4. For a batch of \<open>N\<close> rows (a state with column 0, a rectangular next state with
  columns 0 and 2, an action), the ant \<^verbatim>\<open>get_cost\<close> returns \<open>N\<close> costs and a done of
  shape \<open>[N, 1]\<close>. The cost of row \<open>i\<close> is
  \<open>-((x_after - x_before) / dt - 0.5 * sum of squared action entries + 1.0)\<close> in float
  arithmetic, which on finite inputs and \<open>dt \<noteq> 0\<close> is that expression over the reals.
  Done of row \<open>i\<close> is 1 or 0, and it is 1 exactly when some entry of the next-state row is
  not finite or the torso height (column 2) is below 0.2 or above 1.0; so a row with a NaN
  or an infinity has done 1.
\<close>

theorem ant_cost_done:
  "(0 < ncols state \<and> 2 < ncols next_state \<and> wf_tensor2 next_state
      \<and> length (rows state) = N \<and> length (rows action) = N
      \<and> length (rows next_state) = N \<longrightarrow>
      (\<exists>cost done.
         AntTask_get_cost self state action next_state = Inr (cost, done)
         \<and> length cost = N \<and> ncols done = 1 \<and> length (rows done) = N
         \<and> (\<forall>i < N.
               cost ! i =
                 fneg (fadd
                   (fsub (fdiv (fsub (rows next_state ! i ! 0) (rows state ! i ! 0))
                            (Fin (dt self)))
                         (fmul (Fin (1 / 2)) (fsum (map (\<lambda>v. fmul v v) (rows action ! i)))))
                   (Fin 1))
               \<and> (rows done ! i = [Fin 1] \<or> rows done ! i = [Fin 0])
               \<and> (rows done ! i = [Fin 1] \<longleftrightarrow>
                    \<not> list_all isfinite (rows next_state ! i)
                    \<or> (\<exists>h. rows next_state ! i ! 2 = Fin h \<and> (h < 2 / 10 \<or> 1 < h))))))
   \<and> (dt self \<noteq> 0 \<longrightarrow>
        fneg (fadd
          (fsub (fdiv (fsub (Fin xa) (Fin xb)) (Fin (dt self)))
                (fmul (Fin (1 / 2)) (fsum (map (\<lambda>v. fmul v v) (map Fin as)))))
          (Fin 1))
        = Fin (- ((xa - xb) / dt self - 1 / 2 * (\<Sum>a\<leftarrow>as. a * a) + 1)))"
proof -
  have batch: "\<exists>cost done.
         AntTask_get_cost self state action next_state = Inr (cost, done)
         \<and> length cost = N \<and> ncols done = 1 \<and> length (rows done) = N
         \<and> (\<forall>i < N.
               cost ! i =
                 fneg (fadd
                   (fsub (fdiv (fsub (rows next_state ! i ! 0) (rows state ! i ! 0))
                            (Fin (dt self)))
                         (fmul (Fin (1 / 2)) (fsum (map (\<lambda>v. fmul v v) (rows action ! i)))))
                   (Fin 1))
               \<and> (rows done ! i = [Fin 1] \<or> rows done ! i = [Fin 0])
               \<and> (rows done ! i = [Fin 1] \<longleftrightarrow>
                    \<not> list_all isfinite (rows next_state ! i)
                    \<or> (\<exists>h. rows next_state ! i ! 2 = Fin h \<and> (h < 2 / 10 \<or> 1 < h))))"
    if h: "0 < ncols state" "2 < ncols next_state" "length (rows state) = N"
      "length (rows action) = N" "length (rows next_state) = N"
      and wf: "wf_tensor2 next_state"
  proof -
    from AntTask_get_cost_eval [OF h, of self]
    obtain cost dn where r: "AntTask_get_cost self state action next_state = Inr (cost, Tensor2 1 dn)"
      and l: "length cost = N" "length dn = N"
      and e: "\<forall>i < N.
            cost ! i =
              fneg (fadd
                (fsub (fdiv (fsub (rows next_state ! i ! 0) (rows state ! i ! 0)) (Fin (dt self)))
                      (fmul (Fin (1 / 2)) (fsum (map (\<lambda>v. fmul v v) (rows action ! i)))))
                (Fin 1))
            \<and> dn ! i =
              [of_bool_float
                 (\<not> (list_all isfinite (rows next_state ! i)
                     \<and> fle (Fin (2 / 10)) (rows next_state ! i ! 2)
                     \<and> fle (rows next_state ! i ! 2) (Fin 1)))]"
      by blast
    have d: "(dn ! i = [Fin 1] \<or> dn ! i = [Fin 0])
               \<and> (dn ! i = [Fin 1] \<longleftrightarrow>
                    \<not> list_all isfinite (rows next_state ! i)
                    \<or> (\<exists>h. rows next_state ! i ! 2 = Fin h \<and> (h < 2 / 10 \<or> 1 < h)))"
      if i: "i < N" for i
    proof -
      have "length (rows next_state ! i) = ncols next_state"
        using wf_tensor2_row [OF wf] i h(5) by simp
      then have "2 < length (rows next_state ! i)" using h(2) by simp
      from ant_done_iff [OF this] e i show ?thesis
        by (simp add: of_bool_float_def)
    qed
    show ?thesis
    proof (intro exI [of _ cost] exI [of _ "Tensor2 1 dn"] conjI)
      show "AntTask_get_cost self state action next_state = Inr (cost, Tensor2 1 dn)" by (rule r)
      show "length cost = N" by (rule l)
      show "ncols (Tensor2 1 dn) = 1" by simp
      show "length (rows (Tensor2 1 dn)) = N" using l by simp
      show "\<forall>i < N.
               cost ! i =
                 fneg (fadd
                   (fsub (fdiv (fsub (rows next_state ! i ! 0) (rows state ! i ! 0))
                            (Fin (dt self)))
                         (fmul (Fin (1 / 2)) (fsum (map (\<lambda>v. fmul v v) (rows action ! i)))))
                   (Fin 1))
               \<and> (rows (Tensor2 1 dn) ! i = [Fin 1] \<or> rows (Tensor2 1 dn) ! i = [Fin 0])
               \<and> (rows (Tensor2 1 dn) ! i = [Fin 1] \<longleftrightarrow>
                    \<not> list_all isfinite (rows next_state ! i)
                    \<or> (\<exists>h. rows next_state ! i ! 2 = Fin h \<and> (h < 2 / 10 \<or> 1 < h)))"
        unfolding tensor2.sel using e d by blast
    qed
  qed
  have fin: "fneg (fadd
          (fsub (fdiv (fsub (Fin xa) (Fin xb)) (Fin (dt self)))
                (fmul (Fin (1 / 2)) (fsum (map (\<lambda>v. fmul v v) (map Fin as)))))
          (Fin 1))
        = Fin (- ((xa - xb) / dt self - 1 / 2 * (\<Sum>a\<leftarrow>as. a * a) + 1))"
    if "dt self \<noteq> 0"
    unfolding fsum_Fin fsub_def using that by simp
  show ?thesis using batch fin by blast
qed


theorem ant_cost_done_witness:
  "(\<exists>cost done.
      AntTask_get_cost
        \<lparr>nq = 2, nv = 1, init_qpos = [0, 0], init_qvel = [0], dt = 1 / 20,
          action_space = None, qpos = [0, 0], qvel = [0]\<rparr>
        (Tensor2 3 [[Fin 0, Fin 0, Fin (1 / 2)], [Fin 0, Fin 0, Fin (1 / 2)]])
        (Tensor2 2 [[Fin 1, Fin 1], [Fin 0, Fin 0]])
        (Tensor2 3 [[Fin (1 / 10), Fin 0, Fin (1 / 2)], [Fin 0, NaN, Fin (1 / 2)]])
      = Inr (cost, done)
      \<and> length cost = 2 \<and> ncols done = 1 \<and> length (rows done) = 2
      \<and> cost ! 0 = Fin (- 2) \<and> rows done ! 0 = [Fin 0]
      \<and> cost ! 1 = Fin (- 1) \<and> rows done ! 1 = [Fin 1])
   \<and> fneg (fadd
          (fsub (fdiv (fsub (Fin (1 / 10)) (Fin 0)) (Fin (1 / 20)))
                (fmul (Fin (1 / 2)) (fsum (map (\<lambda>v. fmul v v) (map Fin [1, 1])))))
          (Fin 1))
        = Fin (- 2)"
proof -
  let ?self = "\<lparr>nq = 2, nv = 1, init_qpos = [0, 0], init_qvel = [0], dt = 1 / 20,
          action_space = None, qpos = [0, 0], qvel = [0]\<rparr>"
  let ?state = "Tensor2 3 [[Fin 0, Fin 0, Fin (1 / 2)], [Fin 0, Fin 0, Fin (1 / 2)]]"
  let ?action = "Tensor2 2 [[Fin 1, Fin 1], [Fin 0, Fin 0]]"
  let ?next = "Tensor2 3 [[Fin (1 / 10), Fin 0, Fin (1 / 2)], [Fin 0, NaN, Fin (1 / 2)]]"
  note t = ant_cost_done [of ?state ?next 2 ?action ?self "1 / 10" 0 "[1, 1]"]
  have h: "0 < ncols ?state \<and> 2 < ncols ?next \<and> wf_tensor2 ?next
      \<and> length (rows ?state) = 2 \<and> length (rows ?action) = 2 \<and> length (rows ?next) = 2"
    by (simp add: wf_tensor2_def)
  have hd: "dt ?self \<noteq> 0" by simp
  from t [THEN conjunct1, THEN mp, OF h]
  obtain cost dn where r: "AntTask_get_cost ?self ?state ?action ?next = Inr (cost, dn)"
    and l: "length cost = 2" "ncols dn = 1" "length (rows dn) = 2"
    and e: "\<forall>i < 2.
               cost ! i =
                 fneg (fadd
                   (fsub (fdiv (fsub (rows ?next ! i ! 0) (rows ?state ! i ! 0))
                            (Fin (dt ?self)))
                         (fmul (Fin (1 / 2)) (fsum (map (\<lambda>v. fmul v v) (rows ?action ! i)))))
                   (Fin 1))
               \<and> (rows dn ! i = [Fin 1] \<or> rows dn ! i = [Fin 0])
               \<and> (rows dn ! i = [Fin 1] \<longleftrightarrow>
                    \<not> list_all isfinite (rows ?next ! i)
                    \<or> (\<exists>h. rows ?next ! i ! 2 = Fin h \<and> (h < 2 / 10 \<or> 1 < h)))"
    by blast
  have "(0::nat) < 2" by simp
  with e have "cost ! 0 =
                 fneg (fadd
                   (fsub (fdiv (fsub (rows ?next ! 0 ! 0) (rows ?state ! 0 ! 0))
                            (Fin (dt ?self)))
                         (fmul (Fin (1 / 2)) (fsum (map (\<lambda>v. fmul v v) (rows ?action ! 0)))))
                   (Fin 1))
               \<and> (rows dn ! 0 = [Fin 1] \<or> rows dn ! 0 = [Fin 0])
               \<and> (rows dn ! 0 = [Fin 1] \<longleftrightarrow>
                    \<not> list_all isfinite (rows ?next ! 0)
                    \<or> (\<exists>h. rows ?next ! 0 ! 2 = Fin h \<and> (h < 2 / 10 \<or> 1 < h)))"
    by blast
  then have e0: "cost ! 0 = Fin (- 2) \<and> rows dn ! 0 = [Fin 0]"
    by (auto simp: fsub_def)
  have "(1::nat) < 2" by simp
  with e have "cost ! 1 =
                 fneg (fadd
                   (fsub (fdiv (fsub (rows ?next ! 1 ! 0) (rows ?state ! 1 ! 0))
                            (Fin (dt ?self)))
                         (fmul (Fin (1 / 2)) (fsum (map (\<lambda>v. fmul v v) (rows ?action ! 1)))))
                   (Fin 1))
               \<and> (rows dn ! 1 = [Fin 1] \<longleftrightarrow>
                    \<not> list_all isfinite (rows ?next ! 1)
                    \<or> (\<exists>h. rows ?next ! 1 ! 2 = Fin h \<and> (h < 2 / 10 \<or> 1 < h)))"
    by blast
  then have e1: "cost ! 1 = Fin (- 1) \<and> rows dn ! 1 = [Fin 1]"
    by (simp add: fsub_def)
  have b: "\<exists>cost done.
      AntTask_get_cost ?self ?state ?action ?next = Inr (cost, done)
      \<and> length cost = 2 \<and> ncols done = 1 \<and> length (rows done) = 2
      \<and> cost ! 0 = Fin (- 2) \<and> rows done ! 0 = [Fin 0]
      \<and> cost ! 1 = Fin (- 1) \<and> rows done ! 1 = [Fin 1]"
    using r l e0 e1 by blast
  have c: "fneg (fadd
          (fsub (fdiv (fsub (Fin (1 / 10)) (Fin 0)) (Fin (1 / 20)))
                (fmul (Fin (1 / 2)) (fsum (map (\<lambda>v. fmul v v) (map Fin [1, 1])))))
          (Fin 1))
        = Fin (- 2)"
    using t [THEN conjunct2, THEN mp, OF hd] by simp
  show ?thesis
    by (intro conjI) (rule b c)+
qed

section \<open>Reset states\<close>

lemma sample_tensor_shape:
  "0 \<le> n \<Longrightarrow> \<exists>t. sample_tensor n k e = Inr t \<and> shaped_as t (nat n) k"
  by (simp add: sample_tensor_def shaped_as_def wf_tensor2_def list_all_length)

lemma add_vec_tensor2_shape:
  assumes "length v = k" "shaped_as t n k"
  shows "\<exists>t'. add_vec_tensor2 v t = Inr t' \<and> shaped_as t' n k"
  using assms
  by (auto simp: add_vec_tensor2_def shaped_as_def wf_tensor2_def list_all_length
      broadcastable_def stretch2_def)

lemma scale_tensor2_shape: "shaped_as t n k \<Longrightarrow> shaped_as (scale_tensor2 t c) n k"
  by (simp add: scale_tensor2_def shaped_as_def wf_tensor2_def list_all_length)

lemma cat_last_shape:
  assumes "shaped_as a n k" "shaped_as b n m"
  shows "\<exists>t. cat_last a b = Inr t \<and> shaped_as t n (k + m)"
  using assms
  by (simp add: cat_last_def shaped_as_def wf_tensor2_def list_all_length)

lemma noisy_qpos_shape:
  assumes "0 \<le> n" "length (init_qpos self) = nq self"
  shows "\<exists>t. noisy_qpos self n u = Inr t \<and> shaped_as t (nat n) (nq self)"
proof -
  from sample_tensor_shape [OF assms(1)]
  obtain t where "FloatTensor_uniform n (nq self) (- (1 / 10)) (1 / 10) u = Inr t"
    and "shaped_as t (nat n) (nq self)"
    unfolding FloatTensor_uniform_def by blast
  with add_vec_tensor2_shape [of "map Fin (init_qpos self)" "nq self" t "nat n"] assms(2)
  show ?thesis by (auto simp: noisy_qpos_def bind_err_Inr)
qed

lemma gaussian_reset_state_shape:
  assumes "0 \<le> n" "length (init_qpos self) = nq self" "length (init_qvel self) = nv self"
  shows "\<exists>t. gaussian_reset_state self n u g = (Inr t, self)
           \<and> shaped_as t (nat n) (nq self + nv self)"
proof -
  from noisy_qpos_shape [OF assms(1,2)]
  obtain qp where qp: "noisy_qpos self n u = Inr qp" "shaped_as qp (nat n) (nq self)"
    by blast
  from sample_tensor_shape [OF assms(1)]
  obtain noise where noise: "randn n (nv self) g = Inr noise" "shaped_as noise (nat n) (nv self)"
    unfolding randn_def by blast
  from add_vec_tensor2_shape [of "map Fin (init_qvel self)" "nv self"
      "scale_tensor2 noise (1 / 10)" "nat n"] assms(3) scale_tensor2_shape [OF noise(2)]
  obtain qv where qv: "add_vec_tensor2 (map Fin (init_qvel self)) (scale_tensor2 noise (1 / 10))
      = Inr qv" "shaped_as qv (nat n) (nv self)"
    by auto
  from cat_last_shape [OF qp(2) qv(2)]
  obtain t where "cat_last qp qv = Inr t" "shaped_as t (nat n) (nq self + nv self)" by blast
  with qp noise qv show ?thesis
    by (simp add: gaussian_reset_state_def bind_err_Inr)
qed

lemma SwimmerTask_get_reset_state_shape:
  assumes "0 \<le> n" "length (init_qpos self) = nq self" "length (init_qvel self) = nv self"
  shows "\<exists>t. SwimmerTask_get_reset_state self n u u' = (Inr t, self)
           \<and> shaped_as t (nat n) (nq self + nv self)"
proof -
  from noisy_qpos_shape [OF assms(1,2)]
  obtain qp where qp: "noisy_qpos self n u = Inr qp" "shaped_as qp (nat n) (nq self)"
    by blast
  from sample_tensor_shape [OF assms(1)]
  obtain noise where noise: "FloatTensor_uniform n (nv self) (- (1 / 10)) (1 / 10) u' = Inr noise"
    "shaped_as noise (nat n) (nv self)"
    unfolding FloatTensor_uniform_def by blast
  from add_vec_tensor2_shape [of "map Fin (init_qvel self)" "nv self" noise "nat n"]
    assms(3) noise(2)
  obtain qv where qv: "add_vec_tensor2 (map Fin (init_qvel self)) noise = Inr qv"
    "shaped_as qv (nat n) (nv self)"
    by auto
  from cat_last_shape [OF qp(2) qv(2)]
  obtain t where "cat_last qp qv = Inr t" "shaped_as t (nat n) (nq self + nv self)" by blast
  with qp noise qv show ?thesis
    by (simp add: SwimmerTask_get_reset_state_def bind_err_Inr)
qed

text \<open>
  C6. For every \<open>n \<ge> 0\<close>, \<^verbatim>\<open>get_reset_state(n)\<close> returns a tensor of exactly \<open>n\<close>
  rows, each of the task's state dimension: 4 for the cart-pole and, for the ant, the
  half-cheetah and the swimmer, \<open>nq + nv\<close> (the initial pose having \<open>nq\<close> positions and
  \<open>nv\<close> velocities), whatever the random draws are. The environment, simulator state
  included, is the same after the call as before it, also when the call fails.
\<close>

theorem get_reset_state_shape:
  "(0 \<le> n \<longrightarrow>
      (\<exists>t. CartPoleTask_get_reset_state cp n u = (Inr t, cp)
         \<and> length (rows t) = nat n \<and> ncols t = 4 \<and> wf_tensor2 t))
   \<and> (0 \<le> n \<and> length (init_qpos self) = nq self \<and> length (init_qvel self) = nv self \<longrightarrow>
      (\<exists>t. AntTask_get_reset_state self n u g = (Inr t, self)
         \<and> length (rows t) = nat n \<and> ncols t = nq self + nv self \<and> wf_tensor2 t)
      \<and> (\<exists>t. HalfCheetahTask_get_reset_state self n u g = (Inr t, self)
         \<and> length (rows t) = nat n \<and> ncols t = nq self + nv self \<and> wf_tensor2 t)
      \<and> (\<exists>t. SwimmerTask_get_reset_state self n u g = (Inr t, self)
         \<and> length (rows t) = nat n \<and> ncols t = nq self + nv self \<and> wf_tensor2 t))
   \<and> snd (CartPoleTask_get_reset_state cp n u) = cp
   \<and> snd (AntTask_get_reset_state self n u g) = self
   \<and> snd (HalfCheetahTask_get_reset_state self n u g) = self
   \<and> snd (SwimmerTask_get_reset_state self n u g) = self"
proof -
  have cart: "\<exists>t. CartPoleTask_get_reset_state cp n u = (Inr t, cp)
         \<and> length (rows t) = nat n \<and> ncols t = 4 \<and> wf_tensor2 t"
    if "0 \<le> n"
    using sample_tensor_shape [OF that, of 4 "\<lambda>i j. Fin (- (5 / 100) + (5 / 100 - - (5 / 100)) * u i j)"]
    by (auto simp: CartPoleTask_get_reset_state_def FloatTensor_uniform_def shaped_as_def)
  have muj: "(\<exists>t. AntTask_get_reset_state self n u g = (Inr t, self)
         \<and> length (rows t) = nat n \<and> ncols t = nq self + nv self \<and> wf_tensor2 t)
      \<and> (\<exists>t. HalfCheetahTask_get_reset_state self n u g = (Inr t, self)
         \<and> length (rows t) = nat n \<and> ncols t = nq self + nv self \<and> wf_tensor2 t)
      \<and> (\<exists>t. SwimmerTask_get_reset_state self n u g = (Inr t, self)
         \<and> length (rows t) = nat n \<and> ncols t = nq self + nv self \<and> wf_tensor2 t)"
    if h: "0 \<le> n" "length (init_qpos self) = nq self" "length (init_qvel self) = nv self"
    using gaussian_reset_state_shape [OF h, of u g]
      SwimmerTask_get_reset_state_shape [OF h, of u g]
    unfolding AntTask_get_reset_state_def HalfCheetahTask_get_reset_state_def shaped_as_def
    by blast
  have pure: "snd (CartPoleTask_get_reset_state cp n u) = cp"
    "snd (AntTask_get_reset_state self n u g) = self"
    "snd (HalfCheetahTask_get_reset_state self n u g) = self"
    "snd (SwimmerTask_get_reset_state self n u g) = self"
    by (simp_all add: CartPoleTask_get_reset_state_def AntTask_get_reset_state_def
        HalfCheetahTask_get_reset_state_def SwimmerTask_get_reset_state_def
        gaussian_reset_state_def)
  show ?thesis using cart muj pure by blast
qed


theorem get_reset_state_shape_witness:
  "(\<exists>t. CartPoleTask_get_reset_state
           \<lparr>x_threshold = 24 / 10, theta_threshold_radians = 21 / 100,
             cp_action_space = Some (Discrete 2), cp_state = [0, 0, 0, 0]\<rparr>
           3 (\<lambda>i j. 1 / 2)
         = (Inr t, \<lparr>x_threshold = 24 / 10, theta_threshold_radians = 21 / 100,
             cp_action_space = Some (Discrete 2), cp_state = [0, 0, 0, 0]\<rparr>)
       \<and> length (rows t) = 3 \<and> ncols t = 4 \<and> wf_tensor2 t)
   \<and> (\<exists>t. AntTask_get_reset_state
           \<lparr>nq = 2, nv = 1, init_qpos = [0, 3 / 4], init_qvel = [0], dt = 1 / 20,
             action_space = None, qpos = [0, 0], qvel = [0]\<rparr>
           3 (\<lambda>i j. 1 / 2) (\<lambda>i j. 0)
         = (Inr t, \<lparr>nq = 2, nv = 1, init_qpos = [0, 3 / 4], init_qvel = [0], dt = 1 / 20,
             action_space = None, qpos = [0, 0], qvel = [0]\<rparr>)
       \<and> length (rows t) = 3 \<and> ncols t = 3 \<and> wf_tensor2 t)
   \<and> (\<exists>t. HalfCheetahTask_get_reset_state
           \<lparr>nq = 2, nv = 1, init_qpos = [0, 3 / 4], init_qvel = [0], dt = 1 / 20,
             action_space = None, qpos = [0, 0], qvel = [0]\<rparr>
           3 (\<lambda>i j. 1 / 2) (\<lambda>i j. 0)
         = (Inr t, \<lparr>nq = 2, nv = 1, init_qpos = [0, 3 / 4], init_qvel = [0], dt = 1 / 20,
             action_space = None, qpos = [0, 0], qvel = [0]\<rparr>)
       \<and> length (rows t) = 3 \<and> ncols t = 3 \<and> wf_tensor2 t)
   \<and> (\<exists>t. SwimmerTask_get_reset_state
           \<lparr>nq = 2, nv = 1, init_qpos = [0, 3 / 4], init_qvel = [0], dt = 1 / 20,
             action_space = None, qpos = [0, 0], qvel = [0]\<rparr>
           3 (\<lambda>i j. 1 / 2) (\<lambda>i j. 0)
         = (Inr t, \<lparr>nq = 2, nv = 1, init_qpos = [0, 3 / 4], init_qvel = [0], dt = 1 / 20,
             action_space = None, qpos = [0, 0], qvel = [0]\<rparr>)
       \<and> length (rows t) = 3 \<and> ncols t = 3 \<and> wf_tensor2 t)"
proof -
  let ?cp = "\<lparr>x_threshold = 24 / 10, theta_threshold_radians = 21 / 100,
             cp_action_space = Some (Discrete 2), cp_state = [0, 0, 0, 0]\<rparr>"
  let ?self = "\<lparr>nq = 2, nv = 1, init_qpos = [0, 3 / 4], init_qvel = [0], dt = 1 / 20,
             action_space = None, qpos = [0, 0], qvel = [0]\<rparr>"
  note t = get_reset_state_shape [of 3 ?cp "\<lambda>i j. 1 / 2" ?self "\<lambda>i j. 0"]
  have h1: "(0::int) \<le> 3" by simp
  have h2: "(0::int) \<le> 3 \<and> length (init_qpos ?self) = nq ?self
      \<and> length (init_qvel ?self) = nv ?self"
    by simp
  have n: "nat 3 = 3" "nq ?self + nv ?self = 3" by simp_all
  show ?thesis
    using t [THEN conjunct1, THEN mp, OF h1] t [THEN conjunct2, THEN conjunct1, THEN mp, OF h2]
    unfolding n by blast
qed

section \<open>Setting the simulator state\<close>

text \<open>
  C7. For a flat state vector of length \<open>nq + nv\<close>, \<^verbatim>\<open>set_new_state\<close> succeeds and
  the observation composed afterwards, the positions followed by the velocities, is the
  state vector itself: its first \<open>nq\<close> entries are the new positions, the rest the new
  velocities.
\<close>

theorem set_new_state_roundtrip:
  "length state = nq self + nv self \<longrightarrow>
     (\<exists>self'. set_new_state self state = (Inr (), self')
        \<and> get_obs self' = state
        \<and> qpos self' = take (nq self) state
        \<and> qvel self' = drop (nq self) state
        \<and> nq self' = nq self \<and> nv self' = nv self)"
  by (simp add: set_new_state_def set_state_def slice_def get_obs_def)

theorem set_new_state_roundtrip_witness:
  "length [1, 2, 3 :: real] = 2 + 1
   \<and> (\<exists>self'. set_new_state
           \<lparr>nq = 2, nv = 1, init_qpos = [0, 3 / 4], init_qvel = [0], dt = 1 / 20,
             action_space = None, qpos = [0, 0], qvel = [0]\<rparr> [1, 2, 3]
         = (Inr (), self')
        \<and> get_obs self' = [1, 2, 3] \<and> qpos self' = [1, 2] \<and> qvel self' = [3])"
proof -
  let ?self = "\<lparr>nq = 2, nv = 1, init_qpos = [0, 3 / 4], init_qvel = [0], dt = 1 / 20,
             action_space = None, qpos = [0, 0], qvel = [0]\<rparr>"
  have h: "length [1, 2, 3 :: real] = nq ?self + nv ?self" by simp
  from set_new_state_roundtrip [of "[1, 2, 3]" ?self, THEN mp, OF h]
  obtain self' where "set_new_state ?self [1, 2, 3] = (Inr (), self')"
    "get_obs self' = [1, 2, 3]" "qpos self' = take (nq ?self) [1, 2, 3]"
    "qvel self' = drop (nq ?self) [1, 2, 3]"
    by blast
  then have "set_new_state ?self [1, 2, 3] = (Inr (), self')
        \<and> get_obs self' = [1, 2, 3] \<and> qpos self' = [1, 2] \<and> qvel self' = [3]"
    by simp
  then show ?thesis by (intro conjI exI [of _ self']) simp_all
qed

end
